theory Spec2Isabelle
  imports Complex_Main "HOL-Library.Multiset" "HOL-Library.Char_ord" "HOL-Library.List_Lexorder"
begin

section \<open>Data model of the dashboard (streamlit1.py)\<close>

text \<open>
  A Polars table is a list of rows, a row a record of its columns. A column that may hold
  a Polars null has an option type, \<open>None\<close> being null. Columns that several tables
  share (\<open>STORE_ID\<close>, \<open>TRANSACTION_SET_ID\<close>, \<open>CATEGORY\<close>, ...) carry a one-letter
  table prefix here, since a record field is a constant of the theory:
  \<open>d_\<close> daily aggregate, \<open>s_\<close> transaction sets, \<open>i_\<close> transaction items.
  Monetary amounts are exact rationals standing for the finite floating-point values.
\<close>

text \<open>
  A store identifier as a parquet column may hold it: an integer, a (finite) float or
  a string.
\<close>

datatype ident = IntV int | FloatV rat | StrV string

text \<open>
  A timestamp, as the calendar fields a Polars \<open>Datetime\<close> denotes; \<open>dt.year()\<close> and
  \<open>dt.month()\<close> read the first two.
\<close>

record datetime =
  dt_year :: int
  dt_month :: int
  dt_day :: int
  dt_seconds :: int

record daily_row =
  d_STORE_ID :: "ident option"
  d_CATEGORY :: "string option"
  d_SUBCATEGORY :: "string option"
  d_BRAND :: "string option"
  d_SKUPOS_DESCRIPTION :: "string option"
  d_CALENDAR_YEAR :: "int option"
  d_CALENDAR_MONTH :: "int option"
  d_WEEk :: "int option"
  d_TOTAL_REVENUE_AMOUNT :: "rat option"
  d_QUANTITY :: "int option"
  d_TRANSACTION_COUNT :: "int option"

record set_row =
  s_TRANSACTION_SET_ID :: "int option"
  s_STORE_ID :: "ident option"
  s_DATE_TIME :: "datetime option"
  s_PAYMENT_TYPE :: "string option"
  s_GRAND_TOTAL_AMOUNT :: "rat option"

record item_row =
  i_TRANSACTION_SET_ID :: "int option"
  i_GTIN :: "int option"
  i_UNIT_PRICE :: "rat option"
  i_UNIT_QUANTITY :: "rat option"
  i_GRAND_TOTAL_AMOUNT :: "rat option"

text \<open>The entries of the dictionary of \<open>load_data\<close> that the unified filter reads.\<close>

record tables =
  daily :: "daily_row list"
  sets :: "set_row list"
  items :: "item_row list"

subsection \<open>Polars expressions with nulls\<close>

text \<open>
  A boolean expression evaluates per row to true, false or null. Comparison with a null
  operand and \<open>is_in\<close> of a null are null; \<open>&\<close> and \<open>|\<close> are Kleene's; \<open>filter\<close> keeps
  the rows whose predicate is true, dropping false and null alike, in input order.
\<close>

definition pl_eq :: "'a option \<Rightarrow> 'a \<Rightarrow> bool option" where
  "pl_eq c v = (case c of None \<Rightarrow> None | Some x \<Rightarrow> Some (x = v))"

definition pl_ne :: "'a option \<Rightarrow> 'a \<Rightarrow> bool option" where
  "pl_ne c v = (case c of None \<Rightarrow> None | Some x \<Rightarrow> Some (x \<noteq> v))"

definition pl_is_in :: "'a option \<Rightarrow> 'a list \<Rightarrow> bool option" where
  "pl_is_in c vs = (case c of None \<Rightarrow> None | Some x \<Rightarrow> Some (x \<in> set vs))"

definition pl_is_not_null :: "'a option \<Rightarrow> bool option" where
  "pl_is_not_null c = Some (c \<noteq> None)"

fun pl_and :: "bool option \<Rightarrow> bool option \<Rightarrow> bool option" where
  "pl_and (Some False) _ = Some False"
| "pl_and _ (Some False) = Some False"
| "pl_and (Some True) (Some True) = Some True"
| "pl_and _ _ = None"

fun pl_or :: "bool option \<Rightarrow> bool option \<Rightarrow> bool option" where
  "pl_or (Some True) _ = Some True"
| "pl_or _ (Some True) = Some True"
| "pl_or (Some False) (Some False) = Some False"
| "pl_or _ _ = None"

definition pl_filter :: "('r \<Rightarrow> bool option) \<Rightarrow> 'r list \<Rightarrow> 'r list" where
  "pl_filter p rows = filter (\<lambda>r. p r = Some True) rows"

text \<open>\<open>sum\<close> skips nulls and is 0 on an empty or all-null column.\<close>

definition pl_sum :: "('a::comm_monoid_add) option list \<Rightarrow> 'a" where
  "pl_sum col = sum_list (map (\<lambda>c. case c of None \<Rightarrow> 0 | Some x \<Rightarrow> x) col)"

text \<open>\<open>unique\<close> keeps one row per distinct value, null included; \<open>n_unique\<close> counts them.\<close>

definition pl_unique :: "'a list \<Rightarrow> 'a list" where
  "pl_unique col = remdups col"

definition pl_n_unique :: "'a list \<Rightarrow> nat" where
  "pl_n_unique col = length (remdups col)"

section \<open>The unified filter: get_unified_data\<close>

record unified =
  filtered_daily :: "daily_row list"
  filtered_sets :: "set_row list"
  filtered_items :: "item_row list"
  total_revenue :: rat
  total_transactions :: nat
  unique_stores :: nat

text \<open>
  \<open>with_columns\<close> adds the derived \<open>year\<close> and \<open>month\<close> to every transaction set; a
  row with the two derived columns is the triple of the row and their values.
\<close>

definition sets_with_date :: "set_row list \<Rightarrow> (set_row \<times> int option \<times> int option) list" where
  "sets_with_date rows =
     map (\<lambda>r. (r, map_option dt_year (s_DATE_TIME r), map_option dt_month (s_DATE_TIME r))) rows"

definition drop_year_month :: "(set_row \<times> int option \<times> int option) list \<Rightarrow> set_row list" where
  "drop_year_month rows = map fst rows"

text \<open>
  The inner join of the items with the one-column table of valid identifiers, on
  \<open>TRANSACTION_SET_ID\<close>: one output row per pair of an item and an identifier with
  equal keys; a null key matches nothing. The identifier being the only column of the
  right table, an output row has the columns of the item. Polars leaves the order of
  the rows of a join open; the list below has them in the order of the items, and only
  its rows and their multiplicities are the join's.
\<close>

definition keys_match :: "'k option \<Rightarrow> 'k option \<Rightarrow> bool" where
  "keys_match a b = (a \<noteq> None \<and> a = b)"

definition join_items_inner :: "item_row list \<Rightarrow> int option list \<Rightarrow> item_row list" where
  "join_items_inner left right =
     concat (map (\<lambda>l. concat (map (\<lambda>k.
        if keys_match (i_TRANSACTION_SET_ID l) k then [l] else []) right)) left)"

definition get_unified_data :: "tables \<Rightarrow> int option \<Rightarrow> int list \<Rightarrow> unified" where
  "get_unified_data data_dict year_filter month_filter =
     (let fdaily =
            (case year_filter of
               None \<Rightarrow> pl_filter (\<lambda>r. pl_is_in (d_CALENDAR_MONTH r) month_filter) (daily data_dict)
             | Some y \<Rightarrow> pl_filter (\<lambda>r. pl_and (pl_eq (d_CALENDAR_YEAR r) y)
                                              (pl_is_in (d_CALENDAR_MONTH r) month_filter))
                          (daily data_dict));
          swd = sets_with_date (sets data_dict);
          fsets0 =
            (case year_filter of
               None \<Rightarrow> pl_filter (\<lambda>(r, yr, mo). pl_is_in mo month_filter) swd
             | Some y \<Rightarrow> pl_filter (\<lambda>(r, yr, mo). pl_and (pl_eq yr y) (pl_is_in mo month_filter)) swd);
          fsets = drop_year_month fsets0;
          valid_txn_ids = pl_unique (map s_TRANSACTION_SET_ID fsets);
          fitems = join_items_inner (items data_dict) valid_txn_ids
      in \<lparr> filtered_daily = fdaily,
           filtered_sets = fsets,
           filtered_items = fitems,
           total_revenue = pl_sum (map s_GRAND_TOTAL_AMOUNT fsets),
           total_transactions = length fsets,
           unique_stores = pl_n_unique (map s_STORE_ID fsets) \<rparr>)"

text \<open>
  The period filter in the words of the specification: a row is in the period when its
  calendar month is one of the selected months and, when a year is given, its calendar
  year is that year. A row with no month (or, a year being given, no year) is not.
\<close>

definition in_period :: "int option \<Rightarrow> int list \<Rightarrow> int option \<Rightarrow> int option \<Rightarrow> bool" where
  "in_period year months row_year row_month =
     ((\<exists>m. row_month = Some m \<and> m \<in> set months) \<and>
      (case year of None \<Rightarrow> True | Some y \<Rightarrow> row_year = Some y))"

text \<open>A small dataset used to exercise the filter on concrete input.\<close>

definition example_tables :: tables where
  "example_tables =
     \<lparr> daily =
         [\<lparr> d_STORE_ID = Some (IntV 1), d_CATEGORY = Some ''SNACK'', d_SUBCATEGORY = None,
            d_BRAND = Some ''B1'', d_SKUPOS_DESCRIPTION = Some ''P1'',
            d_CALENDAR_YEAR = Some 2023, d_CALENDAR_MONTH = Some 1, d_WEEk = Some 2,
            d_TOTAL_REVENUE_AMOUNT = Some 10, d_QUANTITY = Some 4, d_TRANSACTION_COUNT = Some 3 \<rparr>,
          \<lparr> d_STORE_ID = Some (IntV 1), d_CATEGORY = Some ''FUEL'', d_SUBCATEGORY = None,
            d_BRAND = Some ''B2'', d_SKUPOS_DESCRIPTION = Some ''P2'',
            d_CALENDAR_YEAR = Some 2022, d_CALENDAR_MONTH = Some 1, d_WEEk = Some 2,
            d_TOTAL_REVENUE_AMOUNT = Some 50, d_QUANTITY = Some 5, d_TRANSACTION_COUNT = Some 1 \<rparr>,
          \<lparr> d_STORE_ID = Some (IntV 2), d_CATEGORY = Some ''SNACK'', d_SUBCATEGORY = None,
            d_BRAND = Some ''B1'', d_SKUPOS_DESCRIPTION = Some ''P1'',
            d_CALENDAR_YEAR = Some 2023, d_CALENDAR_MONTH = None, d_WEEk = Some 9,
            d_TOTAL_REVENUE_AMOUNT = Some 7, d_QUANTITY = Some 1, d_TRANSACTION_COUNT = Some 1 \<rparr>],
       sets =
         [\<lparr> s_TRANSACTION_SET_ID = Some 100, s_STORE_ID = Some (IntV 1),
            s_DATE_TIME = Some \<lparr> dt_year = 2023, dt_month = 1, dt_day = 15, dt_seconds = 0 \<rparr>,
            s_PAYMENT_TYPE = Some ''CASH'', s_GRAND_TOTAL_AMOUNT = Some 12 \<rparr>,
          \<lparr> s_TRANSACTION_SET_ID = Some 101, s_STORE_ID = Some (IntV 1),
            s_DATE_TIME = Some \<lparr> dt_year = 2022, dt_month = 1, dt_day = 3, dt_seconds = 0 \<rparr>,
            s_PAYMENT_TYPE = Some ''CREDIT'', s_GRAND_TOTAL_AMOUNT = Some 30 \<rparr>,
          \<lparr> s_TRANSACTION_SET_ID = Some 102, s_STORE_ID = Some (IntV 2),
            s_DATE_TIME = None,
            s_PAYMENT_TYPE = Some ''CASH'', s_GRAND_TOTAL_AMOUNT = Some 5 \<rparr>],
       items =
         [\<lparr> i_TRANSACTION_SET_ID = Some 100, i_GTIN = Some 7, i_UNIT_PRICE = Some 3,
            i_UNIT_QUANTITY = Some 4, i_GRAND_TOTAL_AMOUNT = Some 12 \<rparr>,
          \<lparr> i_TRANSACTION_SET_ID = Some 101, i_GTIN = Some 8, i_UNIT_PRICE = Some 30,
            i_UNIT_QUANTITY = Some 1, i_GRAND_TOTAL_AMOUNT = Some 30 \<rparr>,
          \<lparr> i_TRANSACTION_SET_ID = None, i_GTIN = Some 7, i_UNIT_PRICE = Some 3,
            i_UNIT_QUANTITY = Some 1, i_GRAND_TOTAL_AMOUNT = Some 3 \<rparr>] \<rparr>"

section \<open>Report aggregators\<close>

subsection \<open>Float division, grouping, sorting\<close>

text \<open>
  The result of a Polars float division \<open>a / b\<close>, which is never an error: a finite
  quotient when \<open>b\<close> is not zero, and otherwise the IEEE 754 values: not-a-number for
  \<open>0 / 0\<close>, an infinity of the sign of \<open>a\<close> for \<open>a / 0\<close>. Finite values are exact
  rationals (rounding is not modelled).
\<close>

datatype fnum = Finite rat | PosInf | NegInf | NaN

definition fdiv :: "rat \<Rightarrow> rat \<Rightarrow> fnum" where
  "fdiv a b =
     (if b \<noteq> 0 then Finite (a / b)
      else if a = 0 then NaN
      else if 0 < a then PosInf
      else NegInf)"

text \<open>
  \<open>group_by\<close>: one group per distinct key (null is a key like any other), holding the
  rows of that key in input order. Polars leaves the order of the groups open; the list
  below is one order, and what is proved about groups does not depend on it.
\<close>

definition group_by :: "('r \<Rightarrow> 'k) \<Rightarrow> 'r list \<Rightarrow> ('k \<times> 'r list) list" where
  "group_by key rows = map (\<lambda>k. (k, filter (\<lambda>r. key r = k) rows)) (remdups (map key rows))"

text \<open>
  \<open>sort\<close> with its default \<open>maintain_order=False\<close> returns the rows ordered by the
  key and promises nothing about rows of equal key. After a \<open>group_by\<close>, whose output
  order is open as well, every ordered arrangement of the rows is a possible result:
  \<open>ys\<close> is one of them when it holds the same rows and is ordered.
\<close>

definition sorted_descending_of :: "('r \<Rightarrow> rat) \<Rightarrow> 'r list \<Rightarrow> 'r list \<Rightarrow> bool" where
  "sorted_descending_of key rows ys =
     (mset ys = mset rows \<and> sorted_wrt (\<lambda>a b. key b \<le> key a) ys)"

definition sorted_ascending_of :: "('r \<Rightarrow> rat) \<Rightarrow> 'r list \<Rightarrow> 'r list \<Rightarrow> bool" where
  "sorted_ascending_of key rows ys =
     (mset ys = mset rows \<and> sorted_wrt (\<lambda>a b. key a \<le> key b) ys)"

text \<open>\<open>mean\<close> skips nulls and is null when no value is left.\<close>

definition pl_mean :: "rat option list \<Rightarrow> rat option" where
  "pl_mean col =
     (let vs = List.map_filter id col
      in if vs = [] then None else Some (sum_list vs / of_nat (length vs)))"

subsection \<open>Top 5 products page\<close>

text \<open>
  \<open>categories\<close> are the options of the category widget: the distinct categories of
  the filtered rows other than fuel, sorted. \<open>selected_categories\<close>, the user's choice
  among them, is an argument of \<open>category_filtered\<close>; a Python list is false when empty.
\<close>

definition categories :: "daily_row list \<Rightarrow> string list" where
  "categories fd =
     sort (pl_unique (List.map_filter d_CATEGORY
            (pl_filter (\<lambda>r. pl_ne (d_CATEGORY r) ''FUEL'') fd)))"

definition category_filtered :: "daily_row list \<Rightarrow> string list \<Rightarrow> daily_row list" where
  "category_filtered fd selected_categories =
     (if selected_categories \<noteq> [] then
        pl_filter (\<lambda>r. pl_and (pl_ne (d_CATEGORY r) ''FUEL'')
                              (pl_is_in (d_CATEGORY r) selected_categories)) fd
      else pl_filter (\<lambda>r. pl_ne (d_CATEGORY r) ''FUEL'') fd)"

record top5_row =
  t_BRAND :: "string option"
  t_SKUPOS_DESCRIPTION :: "string option"
  t_CATEGORY :: "string option"
  t_total_revenue :: rat
  t_total_units :: int
  t_total_transactions :: int
  t_avg_price :: fnum

text \<open>
  The aggregation up to and including \<open>with_columns\<close>: null exclusion, grouping by
  (brand, description, category), the three sums, and the average price as the plain
  quotient of two of them.
\<close>

definition top5_aggregated :: "daily_row list \<Rightarrow> top5_row list" where
  "top5_aggregated cf =
     map (\<lambda>((brand, descr, cat), rows).
            (let total_revenue = pl_sum (map d_TOTAL_REVENUE_AMOUNT rows);
                 total_units = pl_sum (map d_QUANTITY rows);
                 total_transactions = pl_sum (map d_TRANSACTION_COUNT rows)
             in \<lparr> t_BRAND = brand, t_SKUPOS_DESCRIPTION = descr, t_CATEGORY = cat,
                  t_total_revenue = total_revenue,
                  t_total_units = total_units,
                  t_total_transactions = total_transactions,
                  t_avg_price = fdiv total_revenue (of_int total_units) \<rparr>))
         (group_by (\<lambda>r. (d_BRAND r, d_SKUPOS_DESCRIPTION r, d_CATEGORY r))
            (pl_filter (\<lambda>r. pl_and (pl_and (pl_is_not_null (d_BRAND r))
                                             (pl_is_not_null (d_SKUPOS_DESCRIPTION r)))
                                     (pl_is_not_null (d_CATEGORY r))) cf))"

text \<open>
  \<open>top5_overall cf out\<close>: \<open>out\<close> is a value the expression \<open>top5_overall\<close> of the page
  can take on the category-filtered rows \<open>cf\<close>: the first five rows of a descending
  arrangement, by total revenue, of the aggregated rows.
\<close>

definition top5_overall :: "daily_row list \<Rightarrow> top5_row list \<Rightarrow> bool" where
  "top5_overall cf out =
     (\<exists>ranked. sorted_descending_of t_total_revenue (top5_aggregated cf) ranked \<and>
               out = take 5 ranked)"

subsection \<open>Packaged beverages page\<close>

record bev_row =
  b_BRAND :: "string option"
  b_revenue :: rat
  b_units :: int
  b_transactions :: int
  b_rev_per_unit :: fnum
  b_rev_per_transaction :: fnum

text \<open>
  \<open>str.contains\<close> with a regular expression is the work of the regex engine; it is the
  parameter \<open>str_contains\<close> (value, then pattern) and is null on a null value.
\<close>

definition pl_str_contains :: "(string \<Rightarrow> string \<Rightarrow> bool) \<Rightarrow> string option \<Rightarrow> string \<Rightarrow> bool option" where
  "pl_str_contains str_contains c pat = map_option (\<lambda>v. str_contains v pat) c"

definition bev_filter :: "(string \<Rightarrow> string \<Rightarrow> bool) \<Rightarrow> daily_row \<Rightarrow> bool option" where
  "bev_filter str_contains r =
     pl_and (pl_and (pl_is_not_null (d_CATEGORY r)) (pl_is_not_null (d_BRAND r)))
       (pl_or (pl_or (pl_or (pl_str_contains str_contains (d_CATEGORY r) ''(?i)BEVERAGE'')
                            (pl_str_contains str_contains (d_CATEGORY r) ''(?i)DRINK''))
                     (pl_str_contains str_contains (d_SUBCATEGORY r) ''(?i)BEVERAGE''))
              (pl_str_contains str_contains (d_SUBCATEGORY r) ''(?i)DRINK''))"

text \<open>The aggregation up to the filter on the minimum transaction count.\<close>

definition bev_aggregated :: "(string \<Rightarrow> string \<Rightarrow> bool) \<Rightarrow> daily_row list \<Rightarrow> int \<Rightarrow> bev_row list" where
  "bev_aggregated str_contains fd min_transactions =
     filter (\<lambda>g. min_transactions \<le> b_transactions g)
       (map (\<lambda>(brand, rows).
              (let revenue = pl_sum (map d_TOTAL_REVENUE_AMOUNT rows);
                   units = pl_sum (map d_QUANTITY rows);
                   transactions = pl_sum (map d_TRANSACTION_COUNT rows)
               in \<lparr> b_BRAND = brand, b_revenue = revenue, b_units = units,
                    b_transactions = transactions,
                    b_rev_per_unit = fdiv revenue (of_int units),
                    b_rev_per_transaction = fdiv revenue (of_int transactions) \<rparr>))
            (group_by d_BRAND (pl_filter (bev_filter str_contains) fd)))"

text \<open>\<open>bev_perf \<dots> out\<close>: \<open>out\<close> is a value of the page's \<open>bev_perf\<close>, sorted by revenue.\<close>

definition bev_perf :: "(string \<Rightarrow> string \<Rightarrow> bool) \<Rightarrow> daily_row list \<Rightarrow> int \<Rightarrow> bev_row list \<Rightarrow> bool" where
  "bev_perf str_contains fd min_transactions out =
     sorted_ascending_of b_revenue (bev_aggregated str_contains fd min_transactions) out"

subsection \<open>Cash versus credit page\<close>

text \<open>
  A row of \<open>filtered_payments\<close>: a transaction set joined with one of its items and the
  product of the item. Only the columns the summary reads are kept.
\<close>

record payment_row =
  p_PAYMENT_TYPE :: "string option"
  p_TRANSACTION_SET_ID :: "int option"
  p_GRAND_TOTAL_AMOUNT :: "rat option"
  p_UNIT_QUANTITY :: "rat option"

record payment_summary_row =
  ps_PAYMENT_TYPE :: "string option"
  ps_num_transactions :: nat
  ps_total_spend :: rat
  ps_avg_ticket :: "rat option"
  ps_total_items :: rat
  ps_avg_items_per_txn :: fnum

definition payment_summary :: "payment_row list \<Rightarrow> payment_summary_row list" where
  "payment_summary filtered_payments =
     map (\<lambda>(ptype, rows).
            (let num_transactions = pl_n_unique (map p_TRANSACTION_SET_ID rows);
                 total_items = pl_sum (map p_UNIT_QUANTITY rows)
             in \<lparr> ps_PAYMENT_TYPE = ptype,
                  ps_num_transactions = num_transactions,
                  ps_total_spend = pl_sum (map p_GRAND_TOTAL_AMOUNT rows),
                  ps_avg_ticket = pl_mean (map p_GRAND_TOTAL_AMOUNT rows),
                  ps_total_items = total_items,
                  ps_avg_items_per_txn = fdiv total_items (of_nat num_transactions) \<rparr>))
         (group_by p_PAYMENT_TYPE filtered_payments)"

subsection \<open>Concrete inputs for the report aggregators\<close>

text \<open>One product whose rows sum to zero units and zero revenue.\<close>

definition zero_unit_rows :: "daily_row list" where
  "zero_unit_rows =
     [\<lparr> d_STORE_ID = Some (IntV 1), d_CATEGORY = Some ''PACKAGED BEVERAGES'',
        d_SUBCATEGORY = None, d_BRAND = Some ''B1'', d_SKUPOS_DESCRIPTION = Some ''P1'',
        d_CALENDAR_YEAR = Some 2023, d_CALENDAR_MONTH = Some 1, d_WEEk = Some 2,
        d_TOTAL_REVENUE_AMOUNT = Some 0, d_QUANTITY = Some 0, d_TRANSACTION_COUNT = Some 1 \<rparr>]"

text \<open>Two products of equal revenue.\<close>

definition tie_rows :: "daily_row list" where
  "tie_rows =
     [\<lparr> d_STORE_ID = Some (IntV 1), d_CATEGORY = Some ''SNACK'', d_SUBCATEGORY = None,
        d_BRAND = Some ''B1'', d_SKUPOS_DESCRIPTION = Some ''P1'',
        d_CALENDAR_YEAR = Some 2023, d_CALENDAR_MONTH = Some 1, d_WEEk = Some 2,
        d_TOTAL_REVENUE_AMOUNT = Some 10, d_QUANTITY = Some 5, d_TRANSACTION_COUNT = Some 1 \<rparr>,
      \<lparr> d_STORE_ID = Some (IntV 1), d_CATEGORY = Some ''SNACK'', d_SUBCATEGORY = None,
        d_BRAND = Some ''B2'', d_SKUPOS_DESCRIPTION = Some ''P2'',
        d_CALENDAR_YEAR = Some 2023, d_CALENDAR_MONTH = Some 1, d_WEEk = Some 2,
        d_TOTAL_REVENUE_AMOUNT = Some 10, d_QUANTITY = Some 2, d_TRANSACTION_COUNT = Some 1 \<rparr>]"

text \<open>Two products of different revenue.\<close>

definition ranked_rows :: "daily_row list" where
  "ranked_rows =
     [\<lparr> d_STORE_ID = Some (IntV 1), d_CATEGORY = Some ''SNACK'', d_SUBCATEGORY = None,
        d_BRAND = Some ''B1'', d_SKUPOS_DESCRIPTION = Some ''P1'',
        d_CALENDAR_YEAR = Some 2023, d_CALENDAR_MONTH = Some 1, d_WEEk = Some 2,
        d_TOTAL_REVENUE_AMOUNT = Some 10, d_QUANTITY = Some 5, d_TRANSACTION_COUNT = Some 1 \<rparr>,
      \<lparr> d_STORE_ID = Some (IntV 1), d_CATEGORY = Some ''SNACK'', d_SUBCATEGORY = None,
        d_BRAND = Some ''B2'', d_SKUPOS_DESCRIPTION = Some ''P2'',
        d_CALENDAR_YEAR = Some 2023, d_CALENDAR_MONTH = Some 1, d_WEEk = Some 2,
        d_TOTAL_REVENUE_AMOUNT = Some 30, d_QUANTITY = Some 2, d_TRANSACTION_COUNT = Some 1 \<rparr>]"

text \<open>Three joined payment rows: one cash transaction of two items, one credit transaction.\<close>

definition example_payments :: "payment_row list" where
  "example_payments =
     [\<lparr> p_PAYMENT_TYPE = Some ''CASH'', p_TRANSACTION_SET_ID = Some 100,
        p_GRAND_TOTAL_AMOUNT = Some 12, p_UNIT_QUANTITY = Some 4 \<rparr>,
      \<lparr> p_PAYMENT_TYPE = Some ''CASH'', p_TRANSACTION_SET_ID = Some 100,
        p_GRAND_TOTAL_AMOUNT = Some 12, p_UNIT_QUANTITY = Some 2 \<rparr>,
      \<lparr> p_PAYMENT_TYPE = Some ''CREDIT'', p_TRANSACTION_SET_ID = Some 101,
        p_GRAND_TOTAL_AMOUNT = Some 30, p_UNIT_QUANTITY = Some 1 \<rparr>]"

text \<open>
  A matcher for data in upper-case ASCII, on which the flag \<open>(?i)\<close> changes
  nothing: the pattern after its four-character flag occurs in the value.
\<close>

fun starts_with :: "string \<Rightarrow> string \<Rightarrow> bool" where
  "starts_with [] s = True"
| "starts_with (p # ps) [] = False"
| "starts_with (p # ps) (c # cs) = (p = c \<and> starts_with ps cs)"

fun occurs_in :: "string \<Rightarrow> string \<Rightarrow> bool" where
  "occurs_in pat [] = (pat = [])"
| "occurs_in pat (c # cs) = (starts_with pat (c # cs) \<or> occurs_in pat cs)"

definition upper_case_contains :: "string \<Rightarrow> string \<Rightarrow> bool" where
  "upper_case_contains v pat = occurs_in (drop 4 pat) v"

section \<open>Canonical store identifiers\<close>

text \<open>
  \<open>pl.col("STORE_ID").cast(pl.Int64).cast(pl.Utf8)\<close>, applied to the store table
  (\<open>stores_df\<close>) and to the filtered daily aggregate (\<open>store_perf\<close>) before they are
  joined. Both casts are Polars' and strict (the default): a value that has no
  64-bit integer reading raises, which is \<open>Inl InvalidOperationError\<close> here.
  An integer casts to itself, a float to its truncation towards zero, a string to the
  integer it spells as a decimal literal (digits after an optional sign, nothing
  else); null stays null. The cast to \<open>Utf8\<close> writes the integer in decimal.
\<close>

datatype cast_error = InvalidOperationError

definition in_int64 :: "int \<Rightarrow> bool" where
  "in_int64 i = (- (2 ^ 63) \<le> i \<and> i < 2 ^ 63)"

subsection \<open>Decimal literals\<close>

definition digit_char :: "nat \<Rightarrow> char" where
  "digit_char d = char_of (48 + d)"

definition is_digit :: "char \<Rightarrow> bool" where
  "is_digit c = (48 \<le> (of_char c :: nat) \<and> (of_char c :: nat) \<le> 57)"

definition digit_val :: "char \<Rightarrow> nat" where
  "digit_val c = of_char c - 48"

function string_of_nat :: "nat \<Rightarrow> string" where
  "string_of_nat n =
     (if n < 10 then [digit_char n]
      else string_of_nat (n div 10) @ [digit_char (n mod 10)])"
  by pat_completeness auto
termination
  by (relation "measure (\<lambda>n. n)") auto

declare string_of_nat.simps [simp del]

definition string_of_int :: "int \<Rightarrow> string" where
  "string_of_int i = (if i < 0 then CHR ''-'' # string_of_nat (nat (- i)) else string_of_nat (nat i))"

definition parse_nat :: "string \<Rightarrow> nat option" where
  "parse_nat s =
     (if s \<noteq> [] \<and> list_all is_digit s
      then Some (foldl (\<lambda>acc c. 10 * acc + digit_val c) 0 s)
      else None)"

definition parse_int :: "string \<Rightarrow> int option" where
  "parse_int s =
     (case s of
        [] \<Rightarrow> None
      | c # ds \<Rightarrow>
          if c = CHR ''-'' then map_option (\<lambda>n. - int n) (parse_nat ds)
          else if c = CHR ''+'' then map_option int (parse_nat ds)
          else map_option int (parse_nat s))"

subsection \<open>The two casts\<close>

definition truncate_rat :: "rat \<Rightarrow> int" where
  "truncate_rat q = (if 0 \<le> q then \<lfloor>q\<rfloor> else \<lceil>q\<rceil>)"

definition cast_int64 :: "ident option \<Rightarrow> cast_error + int option" where
  "cast_int64 v =
     (case v of
        None \<Rightarrow> Inr None
      | Some (IntV i) \<Rightarrow> if in_int64 i then Inr (Some i) else Inl InvalidOperationError
      | Some (FloatV q) \<Rightarrow>
          if in_int64 (truncate_rat q) then Inr (Some (truncate_rat q))
          else Inl InvalidOperationError
      | Some (StrV s) \<Rightarrow>
          (case parse_int s of
             None \<Rightarrow> Inl InvalidOperationError
           | Some i \<Rightarrow> if in_int64 i then Inr (Some i) else Inl InvalidOperationError))"

definition cast_utf8 :: "int option \<Rightarrow> string option" where
  "cast_utf8 v = map_option string_of_int v"

definition canonical_store_id :: "ident option \<Rightarrow> cast_error + string option" where
  "canonical_store_id v =
     (case cast_int64 v of Inl e \<Rightarrow> Inl e | Inr i \<Rightarrow> Inr (cast_utf8 i))"

subsection \<open>The two tables whose identifiers are cast\<close>

record store_row =
  st_STORE_ID :: "ident option"
  st_LATITUDE :: "rat option"
  st_LONGITUDE :: "rat option"
  st_STATE :: "string option"
  st_CITY :: "string option"

text \<open>A row of \<open>stores_df\<close>: the selected columns, the identifier in canonical form.\<close>

record stores_df_row =
  sd_STORE_ID :: "string option"
  sd_LATITUDE :: "rat option"
  sd_LONGITUDE :: "rat option"
  sd_STATE :: "string option"
  sd_CITY :: "string option"

text \<open>
  A column expression is evaluated on the whole column: one value that cannot be cast
  fails the whole \<open>with_columns\<close>.
\<close>

fun cast_column :: "ident option list \<Rightarrow> cast_error + string option list" where
  "cast_column [] = Inr []"
| "cast_column (v # vs) =
     (case canonical_store_id v of
        Inl e \<Rightarrow> Inl e
      | Inr k \<Rightarrow> (case cast_column vs of Inl e \<Rightarrow> Inl e | Inr ks \<Rightarrow> Inr (k # ks)))"

definition stores_df :: "store_row list \<Rightarrow> cast_error + stores_df_row list" where
  "stores_df stores =
     (case cast_column (map st_STORE_ID stores) of
        Inl e \<Rightarrow> Inl e
      | Inr ks \<Rightarrow>
          Inr (map (\<lambda>(k, r). \<lparr> sd_STORE_ID = k, sd_LATITUDE = st_LATITUDE r,
                                sd_LONGITUDE = st_LONGITUDE r, sd_STATE = st_STATE r,
                                sd_CITY = st_CITY r \<rparr>) (zip ks stores)))"

record store_perf_row =
  sp_STORE_ID :: "string option"
  sp_revenue :: rat
  sp_transactions :: int

definition store_perf :: "daily_row list \<Rightarrow> cast_error + store_perf_row list" where
  "store_perf fd =
     (case cast_column (map d_STORE_ID fd) of
        Inl e \<Rightarrow> Inl e
      | Inr ks \<Rightarrow>
          Inr (map (\<lambda>(k, rows).
                      \<lparr> sp_STORE_ID = k,
                        sp_revenue = pl_sum (map (d_TOTAL_REVENUE_AMOUNT \<circ> snd) rows),
                        sp_transactions = pl_sum (map (d_TRANSACTION_COUNT \<circ> snd) rows) \<rparr>)
                   (group_by fst (zip ks fd))))"

text \<open>
  The left join of a store with the performance table on \<open>STORE_ID\<close>: the rows of
  \<open>store_perf\<close> whose key matches the store's (a null key matches nothing).
\<close>

definition perf_matches :: "stores_df_row \<Rightarrow> store_perf_row list \<Rightarrow> store_perf_row list" where
  "perf_matches s perf = filter (\<lambda>p. keys_match (sd_STORE_ID s) (sp_STORE_ID p)) perf"

text \<open>
  The column values that stand for the integer \<open>n\<close>: the integer, the float of the
  same value, and the string of its decimal digits.
\<close>

definition is_identifier :: "int \<Rightarrow> ident option \<Rightarrow> bool" where
  "is_identifier n v =
     (v = Some (IntV n) \<or> v = Some (FloatV (of_int n)) \<or> v = Some (StrV (string_of_int n)))"

text \<open>A store table and a daily aggregate that hold store 42 in different forms.\<close>

definition example_stores :: "store_row list" where
  "example_stores =
     [\<lparr> st_STORE_ID = Some (IntV 42), st_LATITUDE = Some 1, st_LONGITUDE = Some 5,
        st_STATE = Some ''ID'', st_CITY = Some ''BOISE'' \<rparr>]"

definition example_store_daily :: "daily_row list" where
  "example_store_daily =
     [\<lparr> d_STORE_ID = Some (FloatV 42), d_CATEGORY = Some ''SNACK'', d_SUBCATEGORY = None,
        d_BRAND = Some ''B1'', d_SKUPOS_DESCRIPTION = Some ''P1'',
        d_CALENDAR_YEAR = Some 2023, d_CALENDAR_MONTH = Some 1, d_WEEk = Some 2,
        d_TOTAL_REVENUE_AMOUNT = Some 10, d_QUANTITY = Some 4, d_TRANSACTION_COUNT = Some 3 \<rparr>]"

section \<open>The census enrichment pipeline\<close>

subsection \<open>HTTP responses and JSON values as Python sees them\<close>

text \<open>
  A JSON value; \<open>JNull\<close> is Python's \<open>None\<close>. An object is the list of its members
  in document order; a character of a string is one \<open>char\<close>.
\<close>

datatype json =
    JNull
  | JBool bool
  | JNum rat
  | JStr string
  | JArr "json list"
  | JObj "(string \<times> json) list"

text \<open>
  What \<open>requests.get\<close> gives: no response at all (connection error, timeout), or a
  response with its status code and, when the body is JSON, the parsed body.
\<close>

datatype http_response = NoResponse | Response nat "json option"

datatype py_error =
    RequestException | HTTPError | JSONDecodeError
  | KeyError | IndexError | TypeError | AttributeError | ColumnNotFoundError

text \<open>\<open>r.raise_for_status()\<close> followed by \<open>r.json()\<close>.\<close>

definition response_json :: "http_response \<Rightarrow> py_error + json" where
  "response_json r =
     (case r of
        NoResponse \<Rightarrow> Inl RequestException
      | Response status body \<Rightarrow>
          if 400 \<le> status \<and> status < 600 then Inl HTTPError
          else (case body of None \<Rightarrow> Inl JSONDecodeError | Some j \<Rightarrow> Inr j))"

text \<open>
  \<open>v[key]\<close> with a string key: the member of an object (the last one of that name, as
  \<open>json.loads\<close> keeps it), \<open>KeyError\<close> when there is none, \<open>TypeError\<close> on anything
  that is not an object.
\<close>

definition getitem_str :: "json \<Rightarrow> string \<Rightarrow> py_error + json" where
  "getitem_str v key =
     (case v of
        JObj members \<Rightarrow>
          (case map_of (rev members) key of None \<Rightarrow> Inl KeyError | Some x \<Rightarrow> Inr x)
      | _ \<Rightarrow> Inl TypeError)"

text \<open>
  \<open>v[i]\<close> with an index \<open>i \<ge> 0\<close>: the element of a list or the character of a string,
  \<open>IndexError\<close> out of range; an object has no integer keys (\<open>KeyError\<close>).
\<close>

definition getitem_int :: "json \<Rightarrow> nat \<Rightarrow> py_error + json" where
  "getitem_int v i =
     (case v of
        JArr xs \<Rightarrow> if i < length xs then Inr (xs ! i) else Inl IndexError
      | JStr s \<Rightarrow> if i < length s then Inr (JStr [s ! i]) else Inl IndexError
      | JObj members \<Rightarrow> Inl KeyError
      | _ \<Rightarrow> Inl TypeError)"

text \<open>\<open>len(v)\<close>; an object counts its distinct member names.\<close>

definition py_len :: "json \<Rightarrow> py_error + nat" where
  "py_len v =
     (case v of
        JArr xs \<Rightarrow> Inr (length xs)
      | JStr s \<Rightarrow> Inr (length s)
      | JObj members \<Rightarrow> Inr (length (remdups (map fst members)))
      | _ \<Rightarrow> Inl TypeError)"

text \<open>\<open>v[:-3]\<close>: all but the last three elements of a list or characters of a string.\<close>

definition drop_last3 :: "json \<Rightarrow> py_error + json" where
  "drop_last3 v =
     (case v of
        JArr xs \<Rightarrow> Inr (JArr (take (length xs - 3) xs))
      | JStr s \<Rightarrow> Inr (JStr (take (length s - 3) s))
      | _ \<Rightarrow> Inl TypeError)"

text \<open>The truth value of what \<open>fetch_tract_acs\<close> returns (\<open>None\<close>, a list or a string).\<close>

fun truthy :: "json option \<Rightarrow> bool" where
  "truthy None = False"
| "truthy (Some (JArr xs)) = (xs \<noteq> [])"
| "truthy (Some (JStr s)) = (s \<noteq> [])"
| "truthy (Some JNull) = False"
| "truthy (Some (JBool b)) = b"
| "truthy (Some (JNum q)) = (q \<noteq> 0)"
| "truthy (Some (JObj members)) = (members \<noteq> [])"

subsection \<open>Geocoding one store\<close>

text \<open>
  The geocoding service is a function of the coordinates: \<open>geocode_store\<close> is memoised
  on them by \<open>st.cache_data\<close>, so within a batch two stores at the same coordinates
  get the same answer, a failure included.
\<close>

type_synonym geocoder = "rat option \<Rightarrow> rat option \<Rightarrow> http_response"

record geo_result =
  g_STATE :: json
  g_COUNTY :: json
  g_TRACT :: json

text \<open>The body of the \<open>try\<close> of \<open>geocode_store\<close>: \<open>Inl\<close> is a raised exception.\<close>

definition geocode_try :: "http_response \<Rightarrow> py_error + geo_result" where
  "geocode_try r =
     (case response_json r of Inl e \<Rightarrow> Inl e | Inr j \<Rightarrow>
      (case getitem_str j ''result'' of Inl e \<Rightarrow> Inl e | Inr res \<Rightarrow>
      (case getitem_str res ''geographies'' of Inl e \<Rightarrow> Inl e | Inr geos \<Rightarrow>
      (case getitem_str geos ''Census Tracts'' of Inl e \<Rightarrow> Inl e | Inr tracts \<Rightarrow>
      (case getitem_int tracts 0 of Inl e \<Rightarrow> Inl e | Inr geo \<Rightarrow>
      (case getitem_str geo ''STATE'' of Inl e \<Rightarrow> Inl e | Inr state \<Rightarrow>
      (case getitem_str geo ''COUNTY'' of Inl e \<Rightarrow> Inl e | Inr county \<Rightarrow>
      (case getitem_str geo ''TRACT'' of Inl e \<Rightarrow> Inl e | Inr tract \<Rightarrow>
         Inr \<lparr> g_STATE = state, g_COUNTY = county, g_TRACT = tract \<rparr>))))))))"

definition geocode_store :: "geocoder \<Rightarrow> rat option \<Rightarrow> rat option \<Rightarrow> geo_result" where
  "geocode_store api lat lon =
     (case geocode_try (api lat lon) of
        Inr geo \<Rightarrow> geo
      | Inl e \<Rightarrow> \<lparr> g_STATE = JNull, g_COUNTY = JNull, g_TRACT = JNull \<rparr>)"

subsection \<open>The geocode stage\<close>

record tract_row =
  tr_STORE_ID :: "string option"
  tr_STATEFP :: json
  tr_COUNTYFP :: json
  tr_TRACT :: json

text \<open>
  The loop over \<open>stores_df.iter_rows\<close>, with the list \<open>tract_data\<close> it appends to.
  \<open>pl.DataFrame(tract_data)\<close> is the list of the rows.
\<close>

fun geocode_loop :: "geocoder \<Rightarrow> stores_df_row list \<Rightarrow> tract_row list \<Rightarrow> tract_row list" where
  "geocode_loop api [] tract_data = tract_data"
| "geocode_loop api (row # rows) tract_data =
     (let geo_result = geocode_store api (sd_LATITUDE row) (sd_LONGITUDE row)
      in geocode_loop api rows
           (tract_data @ [\<lparr> tr_STORE_ID = sd_STORE_ID row,
                            tr_STATEFP = g_STATE geo_result,
                            tr_COUNTYFP = g_COUNTY geo_result,
                            tr_TRACT = g_TRACT geo_result \<rparr>]))"

definition geocode_stage :: "geocoder \<Rightarrow> stores_df_row list \<Rightarrow> tract_row list" where
  "geocode_stage api sdf = geocode_loop api sdf []"



subsection \<open>The tract ACS stage\<close>

definition ACS_VARS :: "string list" where
  "ACS_VARS =
     [''B01003_001E'', ''B01001_001E'', ''B19019_001E'', ''B15003_025E'', ''B17001_002E'',
      ''B25077_001E'', ''B25064_001E'', ''B08301_001E'', ''B23025_004E'', ''B08201_001E'']"

text \<open>The statistics service, a function of the triple (memoised like the geocoder).\<close>

type_synonym acs_service = "json \<Rightarrow> json \<Rightarrow> json \<Rightarrow> http_response"

definition fetch_tract_try :: "http_response \<Rightarrow> py_error + json option" where
  "fetch_tract_try r =
     (case response_json r of Inl e \<Rightarrow> Inl e | Inr data \<Rightarrow>
      (case py_len data of Inl e \<Rightarrow> Inl e | Inr n \<Rightarrow>
         if 1 < n then
           (case getitem_int data 1 of Inl e \<Rightarrow> Inl e | Inr row \<Rightarrow>
            (case drop_last3 row of Inl e \<Rightarrow> Inl e | Inr vals \<Rightarrow> Inr (Some vals)))
         else Inr None))"

definition fetch_tract_acs :: "acs_service \<Rightarrow> json \<Rightarrow> json \<Rightarrow> json \<Rightarrow> json option" where
  "fetch_tract_acs api state county tract =
     (case fetch_tract_try (api state county tract) of Inr v \<Rightarrow> v | Inl e \<Rightarrow> None)"

record acs_row =
  a_STATEFP :: json
  a_COUNTYFP :: json
  a_TRACT :: json
  a_values :: "(string \<times> json) list"

text \<open>
  The inner loop \<open>for var_idx, var_name in enumerate(ACS_VARS)\<close>: it is outside any
  \<open>try\<close>, so an index out of range ends the whole stage with \<open>IndexError\<close>.
\<close>

fun add_acs_variables :: "json \<Rightarrow> nat \<Rightarrow> string list \<Rightarrow> (string \<times> json) list \<Rightarrow>
    py_error + (string \<times> json) list" where
  "add_acs_variables acs_values var_idx [] result_dict = Inr result_dict"
| "add_acs_variables acs_values var_idx (var_name # names) result_dict =
     (case getitem_int acs_values var_idx of
        Inl e \<Rightarrow> Inl e
      | Inr v \<Rightarrow> add_acs_variables acs_values (Suc var_idx) names (result_dict @ [(var_name, v)]))"

text \<open>A row of \<open>unique_tracts\<close>: the three identifiers.\<close>

type_synonym tract_key = "json \<times> json \<times> json"



text \<open>
  \<open>unique_tracts\<close>: the distinct triples of the geocoded stores with no null member
  (in an order Polars leaves open; the stage is defined for any list of triples).
\<close>

definition unique_tracts :: "tract_row list \<Rightarrow> tract_key list" where
  "unique_tracts tract_df =
     pl_unique (map (\<lambda>t. (tr_STATEFP t, tr_COUNTYFP t, tr_TRACT t))
       (filter (\<lambda>t. tr_STATEFP t \<noteq> JNull \<and> tr_COUNTYFP t \<noteq> JNull \<and> tr_TRACT t \<noteq> JNull)
          tract_df))"

text \<open>
  The two outcomes of a fetch the stage tells apart: it yields nothing usable (an
  exception, a response of at most the header row, or no value left in the row), or it
  yields the values. The values of a well-formed answer to ten requested variables are
  at least ten.
\<close>

definition fetch_fails_or_empty :: "acs_service \<Rightarrow> tract_key \<Rightarrow> bool" where
  "fetch_fails_or_empty api k =
     (case k of (state, county, tract) \<Rightarrow> \<not> truthy (fetch_tract_acs api state county tract))"

text \<open>The values a fetch returned, as a list: the elements of a list, the characters of a string.\<close>

definition elements :: "json \<Rightarrow> json list" where
  "elements v = (case v of JArr xs \<Rightarrow> xs | JStr s \<Rightarrow> map (\<lambda>c. JStr [c]) s | _ \<Rightarrow> [])"

definition fetch_succeeds :: "acs_service \<Rightarrow> tract_key \<Rightarrow> bool" where
  "fetch_succeeds api k =
     (case k of (state, county, tract) \<Rightarrow>
        (case fetch_tract_acs api state county tract of
           None \<Rightarrow> False
         | Some v \<Rightarrow> length ACS_VARS \<le> length (elements v)))"


subsection \<open>The row a store contributes, and concrete services\<close>

text \<open>The row the geocode loop appends for one store.\<close>

definition tract_row_of :: "geocoder \<Rightarrow> stores_df_row \<Rightarrow> tract_row" where
  "tract_row_of api row =
     (let geo_result = geocode_store api (sd_LATITUDE row) (sd_LONGITUDE row)
      in \<lparr> tr_STORE_ID = sd_STORE_ID row, tr_STATEFP = g_STATE geo_result,
           tr_COUNTYFP = g_COUNTY geo_result, tr_TRACT = g_TRACT geo_result \<rparr>)"


definition example_stores_df :: "stores_df_row list" where
  "example_stores_df =
     [\<lparr> sd_STORE_ID = Some ''42'', sd_LATITUDE = Some 1, sd_LONGITUDE = Some 5,
        sd_STATE = Some ''ID'', sd_CITY = Some ''BOISE'' \<rparr>,
      \<lparr> sd_STORE_ID = Some ''43'', sd_LATITUDE = Some 2, sd_LONGITUDE = Some 5,
        sd_STATE = Some ''ID'', sd_CITY = Some ''NAMPA'' \<rparr>,
      \<lparr> sd_STORE_ID = Some ''44'', sd_LATITUDE = Some 3, sd_LONGITUDE = Some 5,
        sd_STATE = Some ''ID'', sd_CITY = Some ''EAGLE'' \<rparr>,
      \<lparr> sd_STORE_ID = Some ''45'', sd_LATITUDE = None, sd_LONGITUDE = None,
        sd_STATE = Some ''ID'', sd_CITY = None \<rparr>]"



section \<open>Session state, cache files, memoised calls and the runs of the demographics page\<close>

subsection \<open>The session\<close>

text \<open>
  \<open>st.session_state\<close>, restricted to the six keys the page uses: a key is in the
  session when its field is not \<open>None\<close>. A county table is kept as its rows.
\<close>

type_synonym county_table = "(string \<times> json) list list"

record session_state =
  tract_geocoded :: "bool option"
  tract_df :: "tract_row list option"
  acs_tract_fetched :: "bool option"
  acs_tract_df :: "acs_row list option"
  county_acs_fetched :: "bool option"
  county_acs_df :: "county_table option"

text \<open>\<open>key in st.session_state\<close> and \<open>del st.session_state[key]\<close>.\<close>

definition has_key :: "string \<Rightarrow> session_state \<Rightarrow> bool" where
  "has_key key ss =
     (if key = ''tract_geocoded'' then tract_geocoded ss \<noteq> None
      else if key = ''tract_df'' then tract_df ss \<noteq> None
      else if key = ''acs_tract_fetched'' then acs_tract_fetched ss \<noteq> None
      else if key = ''acs_tract_df'' then acs_tract_df ss \<noteq> None
      else if key = ''county_acs_fetched'' then county_acs_fetched ss \<noteq> None
      else if key = ''county_acs_df'' then county_acs_df ss \<noteq> None
      else False)"

definition del_key :: "string \<Rightarrow> session_state \<Rightarrow> session_state" where
  "del_key key ss =
     (if key = ''tract_geocoded'' then ss\<lparr>tract_geocoded := None\<rparr>
      else if key = ''tract_df'' then ss\<lparr>tract_df := None\<rparr>
      else if key = ''acs_tract_fetched'' then ss\<lparr>acs_tract_fetched := None\<rparr>
      else if key = ''acs_tract_df'' then ss\<lparr>acs_tract_df := None\<rparr>
      else if key = ''county_acs_fetched'' then ss\<lparr>county_acs_fetched := None\<rparr>
      else if key = ''county_acs_df'' then ss\<lparr>county_acs_df := None\<rparr>
      else ss)"

text \<open>The session with none of the six keys.\<close>

definition empty_session :: session_state where
  "empty_session = \<lparr> tract_geocoded = None, tract_df = None, acs_tract_fetched = None,
      acs_tract_df = None, county_acs_fetched = None, county_acs_df = None \<rparr>"

subsection \<open>The cache files\<close>

text \<open>
  The three cache files of the data directory. Each is absent, or the parquet file its
  stage wrote, or a file \<open>pl.read_parquet\<close> cannot read. Only the page writes these
  paths, so the type gives the file of a stage no table but that stage's.
\<close>

datatype 'a cache_file = Parquet 'a | Unreadable

record cache_files =
  census_tract_geocoded :: "tract_row list cache_file option"
  census_tract_acs :: "acs_row list cache_file option"
  census_county_acs :: "county_table cache_file option"

definition tract_cache_file :: string where
  "tract_cache_file = ''data/census_tract_geocoded.parquet''"

definition tract_acs_cache_file :: string where
  "tract_acs_cache_file = ''data/census_tract_acs.parquet''"

definition county_acs_cache_file :: string where
  "county_acs_cache_file = ''data/census_county_acs.parquet''"

text \<open>\<open>os.path.exists(path)\<close> and \<open>os.remove(path)\<close> on these paths.\<close>

definition path_exists :: "string \<Rightarrow> cache_files \<Rightarrow> bool" where
  "path_exists path fs =
     (if path = ''data/census_tract_geocoded.parquet'' then census_tract_geocoded fs \<noteq> None
      else if path = ''data/census_tract_acs.parquet'' then census_tract_acs fs \<noteq> None
      else if path = ''data/census_county_acs.parquet'' then census_county_acs fs \<noteq> None
      else False)"

definition os_remove :: "string \<Rightarrow> cache_files \<Rightarrow> cache_files" where
  "os_remove path fs =
     (if path = ''data/census_tract_geocoded.parquet'' then fs\<lparr>census_tract_geocoded := None\<rparr>
      else if path = ''data/census_tract_acs.parquet'' then fs\<lparr>census_tract_acs := None\<rparr>
      else if path = ''data/census_county_acs.parquet'' then fs\<lparr>census_county_acs := None\<rparr>
      else fs)"

definition no_files :: cache_files where
  "no_files = \<lparr> census_tract_geocoded = None, census_tract_acs = None,
                 census_county_acs = None \<rparr>"

subsection \<open>The memo of \<open>st.cache_data\<close>\<close>

text \<open>
  \<open>@st.cache_data(ttl=7200)\<close> on \<open>geocode_store\<close>, \<open>fetch_tract_acs\<close> and
  \<open>fetch_county_acs\<close>: the decorated function keeps, per argument, the value its body
  returned and the time it did, and returns that value without running the body until
  7200 seconds have passed. The memo belongs to the process, not to the session or the
  data directory. The body of each function makes one HTTP request.
\<close>

type_synonym ('k, 'v) memo = "('k \<times> nat \<times> 'v) list"

definition ttl :: nat where
  "ttl = 7200"

definition memo_lookup :: "nat \<Rightarrow> ('k, 'v) memo \<Rightarrow> 'k \<Rightarrow> 'v option" where
  "memo_lookup now memo key =
     (case map_of memo key of
        None \<Rightarrow> None
      | Some (stored, v) \<Rightarrow> if now < stored + ttl then Some v else None)"

text \<open>
  A call of a decorated function at time \<open>now\<close>: the value, the memo after the call,
  and the number of times the body ran (0 or 1).
\<close>

definition cached :: "nat \<Rightarrow> ('k, 'v) memo \<Rightarrow> ('k \<Rightarrow> 'v) \<Rightarrow> 'k \<Rightarrow> 'v \<times> ('k, 'v) memo \<times> nat" where
  "cached now memo body key =
     (case memo_lookup now memo key of
        Some v \<Rightarrow> (v, memo, 0)
      | None \<Rightarrow> (body key, (key, now, body key) # memo, 1))"

type_synonym geocode_memo = "(rat option \<times> rat option, geo_result) memo"
type_synonym tract_memo = "(tract_key, json option) memo"
type_synonym county_memo = "(unit, county_table option) memo"

subsection \<open>The state of the page and the cache clear\<close>

text \<open>
  The messages that tell a stage loaded from its cache file from a stage executed
  (\<open>st.success\<close> with the row count), and the two messages of the cache clear.
\<close>

datatype event =
    Loaded_from_cache string nat
  | Stage_executed string nat
  | Deleted_cache_files nat
  | No_cache_files

text \<open>
  What a run of the page script works on: the files, the session, the three memos, and
  of the run itself the messages shown, the HTTP requests made and the exception that
  ended it, if one did.
\<close>

record page_state =
  files :: cache_files
  session :: session_state
  geocode_memo :: geocode_memo
  tract_memo :: tract_memo
  county_memo :: county_memo
  messages :: "event list"
  requests :: nat
  raised :: "py_error option"

definition files_to_delete :: "string list" where
  "files_to_delete =
     [''data/census_tract_geocoded.parquet'',
      ''data/census_tract_acs.parquet'',
      ''data/census_county_acs.parquet'']"

definition session_keys :: "string list" where
  "session_keys =
     [''tract_geocoded'', ''tract_df'', ''acs_tract_fetched'', ''acs_tract_df'',
      ''county_acs_fetched'', ''county_acs_df'']"

fun remove_files :: "string list \<Rightarrow> cache_files \<Rightarrow> string list \<Rightarrow> cache_files \<times> string list" where
  "remove_files [] fs deleted = (fs, deleted)"
| "remove_files (file # rest) fs deleted =
     (if path_exists file fs then remove_files rest (os_remove file fs) (deleted @ [file])
      else remove_files rest fs deleted)"

fun delete_keys :: "string list \<Rightarrow> session_state \<Rightarrow> session_state" where
  "delete_keys [] ss = ss"
| "delete_keys (key # rest) ss =
     (if has_key key ss then delete_keys rest (del_key key ss) else delete_keys rest ss)"

text \<open>
  Lines 1143 to 1165. The files and the session keys are all the clear touches: there
  is no \<open>st.cache_data.clear()\<close> and no \<open>.clear()\<close> of a decorated function.
\<close>

definition clear_census_cache :: "page_state \<Rightarrow> page_state" where
  "clear_census_cache p =
     (case remove_files files_to_delete (files p) [] of
        (fs, deleted) \<Rightarrow>
          p\<lparr> files := fs,
             session := delete_keys session_keys (session p),
             messages := messages p @
               [if deleted \<noteq> [] then Deleted_cache_files (length deleted) else No_cache_files] \<rparr>)"

subsection \<open>One run of the page\<close>

text \<open>
  What a run is given: the time, the canonical store table, the two services as they
  answer at that time, what the body of \<open>fetch_county_acs\<close> would return at that time
  (the county table, or \<open>None\<close> on any failure), and the exception, if any, that the
  county joins and the charts raise in a given session.
\<close>

record environment =
  env_now :: nat
  env_stores_df :: "stores_df_row list"
  env_geocoder :: geocoder
  env_acs_service :: acs_service
  env_county_acs :: "county_table option"
  env_report_raises :: "session_state \<Rightarrow> py_error option"

text \<open>The button whose click started the run, if any; a disabled button cannot be it.\<close>

datatype button =
    Geocode_Stores | Fetch_Tract_ACS_Data | Fetch_County_ACS_Data | Clear_Census_Cache

text \<open>
  The loop of lines 833 to 842 with the decorated \<open>geocode_store\<close>: the rows, the
  memo and the count of requests are carried along.
\<close>

fun cached_geocode_loop :: "nat \<Rightarrow> geocoder \<Rightarrow> stores_df_row list \<Rightarrow> tract_row list \<Rightarrow>
    geocode_memo \<Rightarrow> nat \<Rightarrow> tract_row list \<times> geocode_memo \<times> nat" where
  "cached_geocode_loop now api [] tract_data memo n = (tract_data, memo, n)"
| "cached_geocode_loop now api (row # rows) tract_data memo n =
     (case cached now memo (\<lambda>(lat, lon). geocode_store api lat lon)
             (sd_LATITUDE row, sd_LONGITUDE row) of
        (geo_result, memo', k) \<Rightarrow>
          cached_geocode_loop now api rows
            (tract_data @ [\<lparr> tr_STORE_ID = sd_STORE_ID row,
                             tr_STATEFP = g_STATE geo_result,
                             tr_COUNTYFP = g_COUNTY geo_result,
                             tr_TRACT = g_TRACT geo_result \<rparr>])
            memo' (n + k))"

text \<open>
  The loop of lines 889 to 909 with the decorated \<open>fetch_tract_acs\<close>. The memo keeps
  what was stored before an \<open>IndexError\<close> ends the loop.
\<close>

fun cached_tract_acs_loop :: "nat \<Rightarrow> acs_service \<Rightarrow> tract_key list \<Rightarrow> acs_row list \<Rightarrow>
    tract_memo \<Rightarrow> nat \<Rightarrow> (py_error + acs_row list) \<times> tract_memo \<times> nat" where
  "cached_tract_acs_loop now api [] acs_results memo n = (Inr acs_results, memo, n)"
| "cached_tract_acs_loop now api ((state, county, tract) # rows) acs_results memo n =
     (case cached now memo (\<lambda>(s, c, t). fetch_tract_acs api s c t) (state, county, tract) of
        (None, memo', k) \<Rightarrow> cached_tract_acs_loop now api rows acs_results memo' (n + k)
      | (Some acs_values, memo', k) \<Rightarrow>
          if truthy (Some acs_values) then
            (case add_acs_variables acs_values 0 ACS_VARS [] of
               Inl e \<Rightarrow> (Inl e, memo', n + k)
             | Inr vals \<Rightarrow>
                 cached_tract_acs_loop now api rows
                   (acs_results @ [\<lparr> a_STATEFP = state, a_COUNTYFP = county, a_TRACT = tract,
                                     a_values = vals \<rparr>])
                   memo' (n + k))
          else cached_tract_acs_loop now api rows acs_results memo' (n + k))"

declare cached_geocode_loop.simps [simp del] cached_tract_acs_loop.simps [simp del]

text \<open>
  A memo whose live entries are what the service would answer now: then the memo does
  not show in the rows of the loop.
\<close>

definition memo_agrees :: "nat \<Rightarrow> geocoder \<Rightarrow> geocode_memo \<Rightarrow> bool" where
  "memo_agrees now api memo =
     (\<forall>lat lon g. memo_lookup now memo (lat, lon) = Some g \<longrightarrow> g = geocode_store api lat lon)"

text \<open>Lines 809 to 847: the geocode cache is looked for once per session, then the button.\<close>

definition load_geocoded :: "page_state \<Rightarrow> page_state" where
  "load_geocoded p =
     (if tract_geocoded (session p) = None then
        (case census_tract_geocoded (files p) of
           Some (Parquet df) \<Rightarrow>
             p\<lparr> session := (session p)\<lparr> tract_df := Some df, tract_geocoded := Some True \<rparr>,
                messages := messages p @ [Loaded_from_cache tract_cache_file (length df)] \<rparr>
         | _ \<Rightarrow> p\<lparr> session := (session p)\<lparr> tract_geocoded := Some False \<rparr> \<rparr>)
      else p)"

definition run_geocode :: "environment \<Rightarrow> button option \<Rightarrow> page_state \<Rightarrow> page_state" where
  "run_geocode env clicked p =
     (if clicked = Some Geocode_Stores \<and> tract_geocoded (session p) \<noteq> Some True then
        (case cached_geocode_loop (env_now env) (env_geocoder env) (env_stores_df env) []
                (geocode_memo p) 0 of
           (tract_data, memo', n) \<Rightarrow>
             p\<lparr> session := (session p)\<lparr> tract_df := Some tract_data,
                                         tract_geocoded := Some True \<rparr>,
                files := (files p)\<lparr> census_tract_geocoded := Some (Parquet tract_data) \<rparr>,
                geocode_memo := memo',
                requests := requests p + n,
                messages := messages p @ [Stage_executed tract_cache_file (length tract_data)] \<rparr>)
      else p)"

text \<open>
  Lines 849 to 914, entered when the stores are geocoded and their table is there. A
  table of no rows is \<open>pl.DataFrame([])\<close>, which has no columns: the filter of line
  856 raises on it.
\<close>

definition load_tract_acs :: "page_state \<Rightarrow> page_state" where
  "load_tract_acs p =
     (if acs_tract_fetched (session p) = None then
        (case census_tract_acs (files p) of
           Some (Parquet df) \<Rightarrow>
             p\<lparr> session := (session p)\<lparr> acs_tract_df := Some df, acs_tract_fetched := Some True \<rparr>,
                messages := messages p @ [Loaded_from_cache tract_acs_cache_file (length df)] \<rparr>
         | _ \<Rightarrow> p\<lparr> session := (session p)\<lparr> acs_tract_fetched := Some False \<rparr> \<rparr>)
      else p)"

definition run_tract_acs :: "environment \<Rightarrow> button option \<Rightarrow> tract_row list \<Rightarrow> page_state \<Rightarrow> page_state" where
  "run_tract_acs env clicked df p =
     (if clicked = Some Fetch_Tract_ACS_Data \<and> acs_tract_fetched (session p) \<noteq> Some True then
        (case cached_tract_acs_loop (env_now env) (env_acs_service env) (unique_tracts df) []
                (tract_memo p) 0 of
           (Inl e, memo', n) \<Rightarrow>
             p\<lparr> tract_memo := memo', requests := requests p + n, raised := Some e \<rparr>
         | (Inr acs_results, memo', n) \<Rightarrow>
             p\<lparr> session := (session p)\<lparr> acs_tract_df := Some acs_results,
                                         acs_tract_fetched := Some True \<rparr>,
                files := (files p)\<lparr> census_tract_acs := Some (Parquet acs_results) \<rparr>,
                tract_memo := memo',
                requests := requests p + n,
                messages := messages p @
                  [Stage_executed tract_acs_cache_file (length acs_results)] \<rparr>)
      else p)"

definition tract_section :: "environment \<Rightarrow> button option \<Rightarrow> page_state \<Rightarrow> page_state" where
  "tract_section env clicked p =
     (case tract_df (session p) of
        Some df \<Rightarrow>
          if tract_geocoded (session p) = Some True then
            (if df = [] then p\<lparr> raised := Some ColumnNotFoundError \<rparr>
             else run_tract_acs env clicked df (load_tract_acs p))
          else p
      | None \<Rightarrow> p)"

text \<open>
  Lines 916 to 1132, entered when the tract data are fetched: the county cache, the
  button, then the joins and the charts.
\<close>

definition load_county_acs :: "page_state \<Rightarrow> page_state" where
  "load_county_acs p =
     (if county_acs_fetched (session p) = None then
        (case census_county_acs (files p) of
           Some (Parquet df) \<Rightarrow>
             p\<lparr> session := (session p)\<lparr> county_acs_df := Some df, county_acs_fetched := Some True \<rparr>,
                messages := messages p @ [Loaded_from_cache county_acs_cache_file (length df)] \<rparr>
         | _ \<Rightarrow> p\<lparr> session := (session p)\<lparr> county_acs_fetched := Some False \<rparr> \<rparr>)
      else p)"

definition run_county_acs :: "environment \<Rightarrow> button option \<Rightarrow> page_state \<Rightarrow> page_state" where
  "run_county_acs env clicked p =
     (if clicked = Some Fetch_County_ACS_Data \<and> county_acs_fetched (session p) \<noteq> Some True then
        (case cached (env_now env) (county_memo p) (\<lambda>u. env_county_acs env) () of
           (Some county_df, memo', k) \<Rightarrow>
             p\<lparr> session := (session p)\<lparr> county_acs_df := Some county_df,
                                         county_acs_fetched := Some True \<rparr>,
                files := (files p)\<lparr> census_county_acs := Some (Parquet county_df) \<rparr>,
                county_memo := memo',
                requests := requests p + k,
                messages := messages p @
                  [Stage_executed county_acs_cache_file (length county_df)] \<rparr>
         | (None, memo', k) \<Rightarrow> p\<lparr> county_memo := memo', requests := requests p + k \<rparr>)
      else p)"

text \<open>
  Lines 945 to 1129 read the three tables of the session in this order, whether or not
  they are there (\<open>AttributeError\<close>), and join on columns a table of no rows does not
  have (\<open>ColumnNotFoundError\<close>); the county table comes from a header row and always has
  its columns.
\<close>

definition report :: "environment \<Rightarrow> page_state \<Rightarrow> page_state" where
  "report env p =
     (case tract_df (session p) of
        None \<Rightarrow> p\<lparr> raised := Some AttributeError \<rparr>
      | Some tdf \<Rightarrow>
          if tdf = [] then p\<lparr> raised := Some ColumnNotFoundError \<rparr>
          else
            (case acs_tract_df (session p) of
               None \<Rightarrow> p\<lparr> raised := Some AttributeError \<rparr>
             | Some adf \<Rightarrow>
                 if adf = [] then p\<lparr> raised := Some ColumnNotFoundError \<rparr>
                 else
                   (case county_acs_df (session p) of
                      None \<Rightarrow> p\<lparr> raised := Some AttributeError \<rparr>
                    | Some cdf \<Rightarrow> p\<lparr> raised := env_report_raises env (session p) \<rparr>)))"

definition county_section :: "environment \<Rightarrow> button option \<Rightarrow> page_state \<Rightarrow> page_state" where
  "county_section env clicked p =
     (if acs_tract_fetched (session p) = Some True
      then report env (run_county_acs env clicked (load_county_acs p))
      else p)"

text \<open>Lines 1136 to 1165.\<close>

definition cache_section :: "button option \<Rightarrow> page_state \<Rightarrow> page_state" where
  "cache_section clicked p =
     (if clicked = Some Clear_Census_Cache then clear_census_cache p else p)"

text \<open>An exception ends the run: the sections after it are not executed.\<close>

definition unless_raised :: "(page_state \<Rightarrow> page_state) \<Rightarrow> page_state \<Rightarrow> page_state" where
  "unless_raised section p = (if raised p = None then section p else p)"

text \<open>
  A run of the page script: top to bottom, on the files, the session and the memos the
  previous run left, with a fresh page (no messages, no requests, no exception).
\<close>

definition page_run :: "environment \<Rightarrow> button option \<Rightarrow> page_state \<Rightarrow> page_state" where
  "page_run env clicked p =
     unless_raised (cache_section clicked)
       (unless_raised (county_section env clicked)
         (unless_raised (tract_section env clicked)
           (run_geocode env clicked
             (load_geocoded (p\<lparr> messages := [], requests := 0, raised := None \<rparr>)))))"


text \<open>
  The stage of the pipeline a session is in, in the specification's names.
  \<open>GEOCODED\<close> is also its \<open>TRACT_ACS_PENDING\<close>, \<open>TRACT_ACS_FETCHED\<close> its
  \<open>COUNTY_ACS_PENDING\<close>: the code keeps one flag per stage.
\<close>

datatype stage = NOT_GEOCODED | GEOCODED | TRACT_ACS_FETCHED | COUNTY_ACS_FETCHED

definition pipeline_state :: "session_state \<Rightarrow> stage" where
  "pipeline_state ss =
     (if tract_geocoded ss \<noteq> Some True then NOT_GEOCODED
      else if acs_tract_fetched ss \<noteq> Some True then GEOCODED
      else if county_acs_fetched ss \<noteq> Some True then TRACT_ACS_FETCHED
      else COUNTY_ACS_FETCHED)"

subsection \<open>A session in which the cache is cleared between two passes\<close>






















section \<open>Properties of the unified filter\<close>

lemma join_distinct:
  "distinct ks \<Longrightarrow>
   concat (map (\<lambda>k. if keys_match key k then [l] else []) ks) =
     (if key \<noteq> None \<and> key \<in> set ks then [l] else [])"
  by (induction ks) (auto simp: keys_match_def)

lemma join_items_inner_distinct:
  "distinct right \<Longrightarrow>
   join_items_inner left right =
     filter (\<lambda>l. i_TRANSACTION_SET_ID l \<noteq> None \<and> i_TRANSACTION_SET_ID l \<in> set right) left"
  unfolding join_items_inner_def
  by (induction left) (auto simp: join_distinct)

lemma filtered_items_eq:
  "filtered_items (get_unified_data d y ms) =
     join_items_inner (items d)
       (pl_unique (map s_TRANSACTION_SET_ID (filtered_sets (get_unified_data d y ms))))"
  by (simp add: get_unified_data_def Let_def)

lemma filtered_items_as_filter:
  "filtered_items (get_unified_data d y ms) =
     filter (\<lambda>r. \<exists>s \<in> set (filtered_sets (get_unified_data d y ms)).
                   i_TRANSACTION_SET_ID r \<noteq> None \<and>
                   s_TRANSACTION_SET_ID s = i_TRANSACTION_SET_ID r)
            (items d)"
proof -
  let ?fs = "filtered_sets (get_unified_data d y ms)"
  let ?ids = "pl_unique (map s_TRANSACTION_SET_ID ?fs)"
  have "distinct ?ids"
    by (simp add: pl_unique_def)
  then have "filtered_items (get_unified_data d y ms) =
     filter (\<lambda>l. i_TRANSACTION_SET_ID l \<noteq> None \<and> i_TRANSACTION_SET_ID l \<in> set ?ids) (items d)"
    by (simp only: filtered_items_eq join_items_inner_distinct)
  also have "\<dots> = filter (\<lambda>r. \<exists>s \<in> set ?fs. i_TRANSACTION_SET_ID r \<noteq> None \<and>
                   s_TRANSACTION_SET_ID s = i_TRANSACTION_SET_ID r) (items d)"
    by (rule filter_cong) (auto simp: pl_unique_def image_iff intro: sym)
  finally show ?thesis .
qed

text \<open>The join up to the order of its rows, which Polars does not fix.\<close>

lemma filtered_items_multiset:
  "mset (filtered_items (get_unified_data d y ms)) =
     filter_mset (\<lambda>r. \<exists>s \<in> set (filtered_sets (get_unified_data d y ms)).
                   i_TRANSACTION_SET_ID r \<noteq> None \<and>
                   s_TRANSACTION_SET_ID s = i_TRANSACTION_SET_ID r)
       (mset (items d))"
  by (subst filtered_items_as_filter) simp

text \<open>
  C1. Whatever the tables, the year (absent or given) and the months, every row of
  \<open>filtered_items\<close> carries a transaction-set identifier that is not null and is the
  identifier of a row of \<open>filtered_sets\<close>; and \<open>filtered_items\<close> is exactly the inner
  join: the items, each once, whose identifier is that of a surviving transaction
  set (listed in the order of the items, the one order the model gives the join).
\<close>

theorem filtered_items_reference_filtered_sets:
  "(\<forall>r \<in> set (filtered_items (get_unified_data d y ms)).
      \<exists>s \<in> set (filtered_sets (get_unified_data d y ms)).
        i_TRANSACTION_SET_ID r \<noteq> None \<and> s_TRANSACTION_SET_ID s = i_TRANSACTION_SET_ID r) \<and>
   filtered_items (get_unified_data d y ms) =
     filter (\<lambda>r. \<exists>s \<in> set (filtered_sets (get_unified_data d y ms)).
                   i_TRANSACTION_SET_ID r \<noteq> None \<and>
                   s_TRANSACTION_SET_ID s = i_TRANSACTION_SET_ID r)
            (items d)"
proof
  show "\<forall>r \<in> set (filtered_items (get_unified_data d y ms)).
      \<exists>s \<in> set (filtered_sets (get_unified_data d y ms)).
        i_TRANSACTION_SET_ID r \<noteq> None \<and> s_TRANSACTION_SET_ID s = i_TRANSACTION_SET_ID r"
  proof
    fix r
    assume "r \<in> set (filtered_items (get_unified_data d y ms))"
    then have "r \<in> set (filter (\<lambda>r. \<exists>s \<in> set (filtered_sets (get_unified_data d y ms)).
                   i_TRANSACTION_SET_ID r \<noteq> None \<and>
                   s_TRANSACTION_SET_ID s = i_TRANSACTION_SET_ID r) (items d))"
      by (simp only: filtered_items_as_filter [symmetric])
    then show "\<exists>s \<in> set (filtered_sets (get_unified_data d y ms)).
        i_TRANSACTION_SET_ID r \<noteq> None \<and> s_TRANSACTION_SET_ID s = i_TRANSACTION_SET_ID r"
      by simp
  qed
next
  show "filtered_items (get_unified_data d y ms) =
     filter (\<lambda>r. \<exists>s \<in> set (filtered_sets (get_unified_data d y ms)).
                   i_TRANSACTION_SET_ID r \<noteq> None \<and>
                   s_TRANSACTION_SET_ID s = i_TRANSACTION_SET_ID r)
            (items d)"
    by (rule filtered_items_as_filter)
qed

lemma example_filtered_sets:
  "filtered_sets (get_unified_data example_tables (Some 2023) [1, 2]) =
     [\<lparr> s_TRANSACTION_SET_ID = Some 100, s_STORE_ID = Some (IntV 1),
        s_DATE_TIME = Some \<lparr> dt_year = 2023, dt_month = 1, dt_day = 15, dt_seconds = 0 \<rparr>,
        s_PAYMENT_TYPE = Some ''CASH'', s_GRAND_TOTAL_AMOUNT = Some 12 \<rparr>]"
  by (simp add: get_unified_data_def example_tables_def Let_def pl_filter_def sets_with_date_def
      drop_year_month_def pl_eq_def pl_is_in_def)
theorem filtered_items_reference_filtered_sets_witness:
  "filtered_items (get_unified_data example_tables (Some 2023) [1, 2]) =
     [\<lparr> i_TRANSACTION_SET_ID = Some 100, i_GTIN = Some 7, i_UNIT_PRICE = Some 3,
        i_UNIT_QUANTITY = Some 4, i_GRAND_TOTAL_AMOUNT = Some 12 \<rparr>]"
proof -
  have "filtered_items (get_unified_data example_tables (Some 2023) [1, 2]) =
     filter (\<lambda>r. \<exists>s \<in> set (filtered_sets (get_unified_data example_tables (Some 2023) [1, 2])).
                   i_TRANSACTION_SET_ID r \<noteq> None \<and>
                   s_TRANSACTION_SET_ID s = i_TRANSACTION_SET_ID r)
            (items example_tables)"
    using filtered_items_reference_filtered_sets [of example_tables "Some 2023" "[1, 2]"]
    by (rule conjunct2)
  also have "\<dots> = [\<lparr> i_TRANSACTION_SET_ID = Some 100, i_GTIN = Some 7, i_UNIT_PRICE = Some 3,
        i_UNIT_QUANTITY = Some 4, i_GRAND_TOTAL_AMOUNT = Some 12 \<rparr>]"
    unfolding example_filtered_sets by (simp add: example_tables_def)
  finally show ?thesis .
qed

section \<open>The period filter selects exactly the rows of the period\<close>

lemma pl_is_in_true:
  "(pl_is_in c ms = Some True) = (\<exists>m. c = Some m \<and> m \<in> set ms)"
  by (cases c) (auto simp: pl_is_in_def)

lemma pl_year_month_true:
  "(pl_and (pl_eq cy y) (pl_is_in cm ms) = Some True) =
     (cy = Some y \<and> (\<exists>m. cm = Some m \<and> m \<in> set ms))"
  by (cases cy; cases cm) (auto simp: pl_is_in_def pl_eq_def elim: pl_and.elims)

lemma filtered_daily_in_period:
  "filtered_daily (get_unified_data d y ms) =
     filter (\<lambda>r. in_period y ms (d_CALENDAR_YEAR r) (d_CALENDAR_MONTH r)) (daily d)"
  by (cases y)
     (auto simp: get_unified_data_def Let_def pl_filter_def in_period_def pl_is_in_true
        pl_year_month_true intro!: filter_cong)

lemma filtered_sets_in_period:
  "filtered_sets (get_unified_data d y ms) =
     filter (\<lambda>r. in_period y ms (map_option dt_year (s_DATE_TIME r))
                                  (map_option dt_month (s_DATE_TIME r))) (sets d)"
  by (cases y)
     (auto simp: get_unified_data_def Let_def pl_filter_def in_period_def pl_is_in_true
        pl_year_month_true sets_with_date_def drop_year_month_def filter_map comp_def
        intro!: filter_cong)

text \<open>
  C2. For every tables mapping, year (absent or given) and month list, the returned
  Daily Aggregate rows are exactly the input rows (same order, same multiplicity) whose
  calendar month is one of the months and, when a year is given, whose calendar year
  equals it; the returned Transaction Set rows are exactly the input rows for which the
  same holds of the year and month read off the row's timestamp. The returned
  Transaction Set rows are rows of the input type: the derived columns are gone.
\<close>

theorem unified_filter_selects_period:
  "filtered_daily (get_unified_data d y ms) =
     filter (\<lambda>r. in_period y ms (d_CALENDAR_YEAR r) (d_CALENDAR_MONTH r)) (daily d) \<and>
   filtered_sets (get_unified_data d y ms) =
     filter (\<lambda>r. in_period y ms (map_option dt_year (s_DATE_TIME r))
                                  (map_option dt_month (s_DATE_TIME r))) (sets d)"
  using filtered_daily_in_period filtered_sets_in_period by (rule conjI)

theorem unified_filter_selects_period_witness:
  "filtered_daily (get_unified_data example_tables None [1]) = take 2 (daily example_tables) \<and>
   filtered_daily (get_unified_data example_tables (Some 2023) [1]) = take 1 (daily example_tables) \<and>
   filtered_sets (get_unified_data example_tables None [1]) = take 2 (sets example_tables) \<and>
   filtered_sets (get_unified_data example_tables (Some 2022) [1]) = [sets example_tables ! 1]"
proof -
  note a = unified_filter_selects_period [of example_tables None "[1]"]
  note b = unified_filter_selects_period [of example_tables "Some 2023" "[1]"]
  note c = unified_filter_selects_period [of example_tables "Some 2022" "[1]"]
  have 1: "filtered_daily (get_unified_data example_tables None [1]) = take 2 (daily example_tables)"
    unfolding a [THEN conjunct1] by (simp add: example_tables_def in_period_def)
  have 2: "filtered_daily (get_unified_data example_tables (Some 2023) [1]) = take 1 (daily example_tables)"
    unfolding b [THEN conjunct1] by (simp add: example_tables_def in_period_def)
  have 3: "filtered_sets (get_unified_data example_tables None [1]) = take 2 (sets example_tables)"
    unfolding a [THEN conjunct2] by (simp add: example_tables_def in_period_def)
  have 4: "filtered_sets (get_unified_data example_tables (Some 2022) [1]) = [sets example_tables ! 1]"
    unfolding c [THEN conjunct2] by (simp add: example_tables_def in_period_def)
  from 1 2 3 4 show ?thesis by (intro conjI)
qed

section \<open>Properties of the report aggregators\<close>

subsection \<open>Null-aware predicates as plain ones\<close>

lemma pl_ne_true: "(pl_ne c v = Some True) = (\<exists>x. c = Some x \<and> x \<noteq> v)"
  by (cases c) (auto simp: pl_ne_def)

lemma pl_ne_is_in_true:
  "(pl_and (pl_ne c v) (pl_is_in c vs) = Some True) =
     (\<exists>x. c = Some x \<and> x \<noteq> v \<and> x \<in> set vs)"
  by (cases c) (auto simp: pl_ne_def pl_is_in_def elim: pl_and.elims)

lemma set_map_filter_eq: "set (List.map_filter f xs) = {y. \<exists>x \<in> set xs. f x = Some y}"
  by (induction xs) (auto split: option.splits)

lemma set_categories:
  "set (categories fd) = {c. c \<noteq> ''FUEL'' \<and> (\<exists>r \<in> set fd. d_CATEGORY r = Some c)}"
  by (auto simp: categories_def pl_unique_def pl_filter_def set_map_filter_eq pl_ne_true)

lemma category_filtered_all:
  "category_filtered fd (categories fd) = pl_filter (\<lambda>r. pl_ne (d_CATEGORY r) ''FUEL'') fd"
  unfolding category_filtered_def pl_filter_def
  by (auto simp: pl_ne_is_in_true pl_ne_true set_categories intro!: filter_cong)

subsection \<open>The category selection\<close>

text \<open>
  C9. With an empty selection, \<open>category_filtered\<close> is the table of all rows whose
  category is present and is not fuel, which is also what selecting every offered
  category gives; and whatever the selection, no row of \<open>category_filtered\<close> is a
  fuel row.
\<close>

theorem empty_selection_is_all_non_fuel:
  "category_filtered fd [] = filter (\<lambda>r. \<exists>c. d_CATEGORY r = Some c \<and> c \<noteq> ''FUEL'') fd \<and>
   category_filtered fd [] = category_filtered fd (categories fd) \<and>
   (\<forall>r \<in> set (category_filtered fd selected). \<exists>c. d_CATEGORY r = Some c \<and> c \<noteq> ''FUEL'')"
proof (intro conjI)
  show "category_filtered fd [] = filter (\<lambda>r. \<exists>c. d_CATEGORY r = Some c \<and> c \<noteq> ''FUEL'') fd"
    by (simp add: category_filtered_def pl_filter_def pl_ne_true)
  show "category_filtered fd [] = category_filtered fd (categories fd)"
    by (simp only: category_filtered_all) (simp add: category_filtered_def)
  show "\<forall>r \<in> set (category_filtered fd selected). \<exists>c. d_CATEGORY r = Some c \<and> c \<noteq> ''FUEL''"
    by (auto simp: category_filtered_def pl_filter_def pl_ne_true pl_ne_is_in_true
        split: if_splits)
qed

theorem empty_selection_is_all_non_fuel_witness:
  "category_filtered (daily example_tables) [] =
     [daily example_tables ! 0, daily example_tables ! 2] \<and>
   category_filtered (daily example_tables) (categories (daily example_tables)) =
     [daily example_tables ! 0, daily example_tables ! 2]"
proof -
  note t = empty_selection_is_all_non_fuel [of "daily example_tables" "[]"]
  have a: "category_filtered (daily example_tables) [] =
      [daily example_tables ! 0, daily example_tables ! 2]"
    unfolding t [THEN conjunct1] by (simp add: example_tables_def)
  have b: "category_filtered (daily example_tables) (categories (daily example_tables)) =
      category_filtered (daily example_tables) []"
    using t [THEN conjunct2, THEN conjunct1] by (rule sym)
  from a b show ?thesis by simp
qed

subsection \<open>Groups are never empty\<close>

lemma group_by_nonempty: "(k, rows) \<in> set (group_by key xs) \<Longrightarrow> rows \<noteq> []"
  by (auto simp: group_by_def filter_empty_conv)

lemma n_unique_pos: "rows \<noteq> [] \<Longrightarrow> 1 \<le> pl_n_unique (map f rows)"
  by (cases rows) (auto simp: pl_n_unique_def Suc_le_eq)

text \<open>
  C10. Every row of the payment summary has a distinct transaction-set count of at
  least 1 (a group holds at least one row), so its items-per-transaction is the finite
  quotient of the summed quantity by that count: the division has a nonzero divisor
  for every group the grouping produces.
\<close>

theorem payment_summary_division_total:
  "\<forall>g \<in> set (payment_summary fp).
      1 \<le> ps_num_transactions g \<and>
      ps_avg_items_per_txn g = Finite (ps_total_items g / of_nat (ps_num_transactions g))"
proof
  fix g
  assume "g \<in> set (payment_summary fp)"
  then obtain k rows where kr: "(k, rows) \<in> set (group_by p_PAYMENT_TYPE fp)"
    and g: "g = \<lparr> ps_PAYMENT_TYPE = k,
                  ps_num_transactions = pl_n_unique (map p_TRANSACTION_SET_ID rows),
                  ps_total_spend = pl_sum (map p_GRAND_TOTAL_AMOUNT rows),
                  ps_avg_ticket = pl_mean (map p_GRAND_TOTAL_AMOUNT rows),
                  ps_total_items = pl_sum (map p_UNIT_QUANTITY rows),
                  ps_avg_items_per_txn =
                    fdiv (pl_sum (map p_UNIT_QUANTITY rows))
                         (of_nat (pl_n_unique (map p_TRANSACTION_SET_ID rows))) \<rparr>"
    by (auto simp: payment_summary_def Let_def)
  from kr have "rows \<noteq> []"
    by (rule group_by_nonempty)
  then have "1 \<le> pl_n_unique (map p_TRANSACTION_SET_ID rows)"
    by (rule n_unique_pos)
  then show "1 \<le> ps_num_transactions g \<and>
      ps_avg_items_per_txn g = Finite (ps_total_items g / of_nat (ps_num_transactions g))"
    by (simp add: g fdiv_def)
qed

lemma example_payment_summary:
  "payment_summary example_payments =
     [\<lparr> ps_PAYMENT_TYPE = Some ''CASH'', ps_num_transactions = 1, ps_total_spend = 24,
        ps_avg_ticket = Some 12, ps_total_items = 6, ps_avg_items_per_txn = Finite 6 \<rparr>,
      \<lparr> ps_PAYMENT_TYPE = Some ''CREDIT'', ps_num_transactions = 1, ps_total_spend = 30,
        ps_avg_ticket = Some 30, ps_total_items = 1, ps_avg_items_per_txn = Finite 1 \<rparr>]"
  by (simp add: payment_summary_def example_payments_def group_by_def pl_n_unique_def
      pl_sum_def pl_mean_def fdiv_def)

theorem payment_summary_division_total_witness:
  "1 \<le> ps_num_transactions (payment_summary example_payments ! 0) \<and>
   ps_avg_items_per_txn (payment_summary example_payments ! 0) = Finite 6"
proof -
  have "payment_summary example_payments ! 0 \<in> set (payment_summary example_payments)"
    by (simp add: example_payment_summary)
  with payment_summary_division_total [of example_payments]
  have "1 \<le> ps_num_transactions (payment_summary example_payments ! 0) \<and>
      ps_avg_items_per_txn (payment_summary example_payments ! 0) =
        Finite (ps_total_items (payment_summary example_payments ! 0) /
                of_nat (ps_num_transactions (payment_summary example_payments ! 0)))"
    by (rule bspec)
  then show ?thesis
    by (simp add: example_payment_summary)
qed

subsection \<open>The divisions by summed units\<close>

lemma sorted_descending_set: "sorted_descending_of key rows ys \<Longrightarrow> set ys = set rows"
  by (auto simp: sorted_descending_of_def dest: mset_eq_setD)

lemma sorted_ascending_set: "sorted_ascending_of key rows ys \<Longrightarrow> set ys = set rows"
  by (auto simp: sorted_ascending_of_def dest: mset_eq_setD)

lemma top5_overall_subset:
  "top5_overall cf out \<Longrightarrow> g \<in> set out \<Longrightarrow> g \<in> set (top5_aggregated cf)"
  by (auto simp: top5_overall_def dest: sorted_descending_set in_set_takeD)

lemma top5_overallI:
  "mset ranked = mset (top5_aggregated cf) \<Longrightarrow>
   sorted_wrt (\<lambda>a b. t_total_revenue b \<le> t_total_revenue a) ranked \<Longrightarrow>
   out = take 5 ranked \<Longrightarrow> top5_overall cf out"
  by (auto simp: top5_overall_def sorted_descending_of_def)

lemma top5_aggregated_avg_price:
  "g \<in> set (top5_aggregated cf) \<Longrightarrow>
   t_avg_price g = fdiv (t_total_revenue g) (of_int (t_total_units g))"
  by (auto simp: top5_aggregated_def Let_def)

lemma bev_aggregated_rev_per_unit:
  "g \<in> set (bev_aggregated sc fd mt) \<Longrightarrow>
   b_rev_per_unit g = fdiv (b_revenue g) (of_int (b_units g))"
  by (auto simp: bev_aggregated_def Let_def)

lemma zero_unit_top5_aggregated:
  "top5_aggregated zero_unit_rows =
     [\<lparr> t_BRAND = Some ''B1'', t_SKUPOS_DESCRIPTION = Some ''P1'',
        t_CATEGORY = Some ''PACKAGED BEVERAGES'', t_total_revenue = 0, t_total_units = 0,
        t_total_transactions = 1, t_avg_price = NaN \<rparr>]"
  by (simp add: top5_aggregated_def zero_unit_rows_def group_by_def pl_filter_def
      pl_is_not_null_def pl_sum_def fdiv_def)

lemma zero_unit_bev_aggregated:
  "bev_aggregated upper_case_contains zero_unit_rows 0 =
     [\<lparr> b_BRAND = Some ''B1'', b_revenue = 0, b_units = 0, b_transactions = 1,
        b_rev_per_unit = NaN, b_rev_per_transaction = Finite 0 \<rparr>]"
  by (simp add: bev_aggregated_def zero_unit_rows_def group_by_def pl_filter_def bev_filter_def
      pl_str_contains_def pl_is_not_null_def pl_sum_def fdiv_def upper_case_contains_def)

lemma ranked_top5_aggregated:
  "top5_aggregated ranked_rows =
     [\<lparr> t_BRAND = Some ''B1'', t_SKUPOS_DESCRIPTION = Some ''P1'', t_CATEGORY = Some ''SNACK'',
        t_total_revenue = 10, t_total_units = 5, t_total_transactions = 1,
        t_avg_price = Finite 2 \<rparr>,
      \<lparr> t_BRAND = Some ''B2'', t_SKUPOS_DESCRIPTION = Some ''P2'', t_CATEGORY = Some ''SNACK'',
        t_total_revenue = 30, t_total_units = 2, t_total_transactions = 1,
        t_avg_price = Finite 15 \<rparr>]"
  by (simp add: top5_aggregated_def ranked_rows_def group_by_def pl_filter_def
      pl_is_not_null_def pl_sum_def fdiv_def)

lemma ranked_top5_overall: "top5_overall ranked_rows (rev (top5_aggregated ranked_rows))"
  by (rule top5_overallI [where ranked = "rev (top5_aggregated ranked_rows)"])
     (simp_all add: ranked_top5_aggregated)

lemma zero_unit_bev_perf:
  "bev_perf upper_case_contains zero_unit_rows 0 (bev_aggregated upper_case_contains zero_unit_rows 0)"
  by (simp add: bev_perf_def sorted_ascending_of_def zero_unit_bev_aggregated)

text \<open>
  C3, as the code has it. Neither division is guarded. In every row of the top-5 table
  and of the beverage brand table, the per-unit value is the float quotient of summed
  revenue by summed units: the finite quotient when the units are not zero, and for a
  zero-unit group not-a-number (zero revenue) or an infinity of the sign of the
  revenue. No sentinel replaces it.
\<close>

theorem per_unit_value_is_unguarded_quotient:
  "(top5_overall cf out \<longrightarrow> (\<forall>g \<in> set out.
      (t_total_units g \<noteq> 0 \<longrightarrow>
         t_avg_price g = Finite (t_total_revenue g / of_int (t_total_units g))) \<and>
      (t_total_units g = 0 \<longrightarrow>
         t_avg_price g = (if t_total_revenue g = 0 then NaN
                          else if 0 < t_total_revenue g then PosInf else NegInf)))) \<and>
   (bev_perf str_contains fd min_transactions out' \<longrightarrow> (\<forall>g \<in> set out'.
      (b_units g \<noteq> 0 \<longrightarrow>
         b_rev_per_unit g = Finite (b_revenue g / of_int (b_units g))) \<and>
      (b_units g = 0 \<longrightarrow>
         b_rev_per_unit g = (if b_revenue g = 0 then NaN
                             else if 0 < b_revenue g then PosInf else NegInf))))"
proof (intro conjI impI ballI)
  fix g
  assume "top5_overall cf out" "g \<in> set out"
  then have g: "t_avg_price g = fdiv (t_total_revenue g) (of_int (t_total_units g))"
    by (intro top5_aggregated_avg_price top5_overall_subset)
  { assume "t_total_units g \<noteq> 0"
    then show "t_avg_price g = Finite (t_total_revenue g / of_int (t_total_units g))"
      by (simp add: g fdiv_def) }
  { assume "t_total_units g = 0"
    then show "t_avg_price g = (if t_total_revenue g = 0 then NaN
                          else if 0 < t_total_revenue g then PosInf else NegInf)"
      by (simp add: g fdiv_def) }
next
  fix g
  assume "bev_perf str_contains fd min_transactions out'" "g \<in> set out'"
  then have "g \<in> set (bev_aggregated str_contains fd min_transactions)"
    by (auto simp: bev_perf_def dest: sorted_ascending_set)
  then have g: "b_rev_per_unit g = fdiv (b_revenue g) (of_int (b_units g))"
    by (rule bev_aggregated_rev_per_unit)
  { assume "b_units g \<noteq> 0"
    then show "b_rev_per_unit g = Finite (b_revenue g / of_int (b_units g))"
      by (simp add: g fdiv_def) }
  { assume "b_units g = 0"
    then show "b_rev_per_unit g = (if b_revenue g = 0 then NaN
                             else if 0 < b_revenue g then PosInf else NegInf)"
      by (simp add: g fdiv_def) }
qed

theorem per_unit_value_is_unguarded_quotient_witness:
  "top5_overall ranked_rows (rev (top5_aggregated ranked_rows)) \<and>
   t_avg_price (rev (top5_aggregated ranked_rows) ! 0) = Finite 15 \<and>
   bev_perf upper_case_contains zero_unit_rows 0 (bev_aggregated upper_case_contains zero_unit_rows 0) \<and>
   b_rev_per_unit (bev_aggregated upper_case_contains zero_unit_rows 0 ! 0) = NaN"
proof -
  note t = per_unit_value_is_unguarded_quotient
    [of ranked_rows "rev (top5_aggregated ranked_rows)" upper_case_contains zero_unit_rows 0
        "bev_aggregated upper_case_contains zero_unit_rows 0"]
  let ?g = "rev (top5_aggregated ranked_rows) ! 0"
  let ?b = "bev_aggregated upper_case_contains zero_unit_rows 0 ! 0"
  have g_in: "?g \<in> set (rev (top5_aggregated ranked_rows))"
    by (simp add: ranked_top5_aggregated)
  have g_units: "t_total_units ?g \<noteq> 0"
    by (simp add: ranked_top5_aggregated)
  from t ranked_top5_overall g_in g_units
  have "t_avg_price ?g = Finite (t_total_revenue ?g / of_int (t_total_units ?g))"
    by blast
  then have a: "t_avg_price ?g = Finite 15"
    by (simp add: ranked_top5_aggregated)
  have b_in: "?b \<in> set (bev_aggregated upper_case_contains zero_unit_rows 0)"
    by (simp add: zero_unit_bev_aggregated)
  have b_units: "b_units ?b = 0"
    by (simp add: zero_unit_bev_aggregated)
  from t zero_unit_bev_perf b_in b_units
  have "b_rev_per_unit ?b = (if b_revenue ?b = 0 then NaN
                             else if 0 < b_revenue ?b then PosInf else NegInf)"
    by blast
  then have b: "b_rev_per_unit ?b = NaN"
    by (simp add: zero_unit_bev_aggregated)
  from ranked_top5_overall a zero_unit_bev_perf b show ?thesis
    by (intro conjI)
qed

text \<open>
  C3 as the specification words it fails: the one group of \<open>zero_unit_rows\<close> has
  zero units, and both tables carry not-a-number for it.
\<close>

theorem zero_unit_group_yields_nan:
  "top5_overall zero_unit_rows
     [\<lparr> t_BRAND = Some ''B1'', t_SKUPOS_DESCRIPTION = Some ''P1'',
        t_CATEGORY = Some ''PACKAGED BEVERAGES'', t_total_revenue = 0, t_total_units = 0,
        t_total_transactions = 1, t_avg_price = NaN \<rparr>] \<and>
   bev_perf upper_case_contains zero_unit_rows 0
     [\<lparr> b_BRAND = Some ''B1'', b_revenue = 0, b_units = 0, b_transactions = 1,
        b_rev_per_unit = NaN, b_rev_per_transaction = Finite 0 \<rparr>]"
proof
  show "top5_overall zero_unit_rows
     [\<lparr> t_BRAND = Some ''B1'', t_SKUPOS_DESCRIPTION = Some ''P1'',
        t_CATEGORY = Some ''PACKAGED BEVERAGES'', t_total_revenue = 0, t_total_units = 0,
        t_total_transactions = 1, t_avg_price = NaN \<rparr>]"
    by (rule top5_overallI [where ranked = "top5_aggregated zero_unit_rows"])
       (simp_all add: zero_unit_top5_aggregated)
  show "bev_perf upper_case_contains zero_unit_rows 0
     [\<lparr> b_BRAND = Some ''B1'', b_revenue = 0, b_units = 0, b_transactions = 1,
        b_rev_per_unit = NaN, b_rev_per_transaction = Finite 0 \<rparr>]"
    using zero_unit_bev_perf by (simp only: zero_unit_bev_aggregated)
qed

subsection \<open>Two runs of the top-5 aggregation\<close>

lemma sorted_descending_keys:
  assumes "sorted_descending_of key rows ys"
  shows "map key ys = rev (sort (map key rows))"
proof -
  from assms have m: "mset ys = mset rows" and s: "sorted_wrt (\<lambda>a b. key b \<le> key a) ys"
    by (simp_all add: sorted_descending_of_def)
  from s have "sorted_wrt (\<lambda>a b. b \<le> a) (map key ys)"
    by (simp add: sorted_wrt_map)
  then have "sorted (rev (map key ys))"
    by (simp add: sorted_wrt_rev)
  moreover from m have "mset (rev (map key ys)) = mset (map key rows)"
    by simp
  ultimately have "sort (map key rows) = rev (map key ys)"
    by (rule properties_for_sort [rotated])
  then show ?thesis by simp
qed

lemma sorted_descending_unique:
  assumes 1: "sorted_descending_of key rows ys" and 2: "sorted_descending_of key rows zs"
    and d: "distinct (map key rows)"
  shows "ys = zs"
proof -
  have k: "map key ys = map key zs"
    using 1 2 by (simp add: sorted_descending_keys)
  have "inj_on key (set rows)"
    using d by (simp add: distinct_map)
  then have "inj_on key (set ys \<union> set zs)"
    using 1 2 by (simp add: sorted_descending_set)
  with k show ?thesis
    by (simp add: inj_on_map_eq_map)
qed

lemma tie_top5_aggregated:
  "top5_aggregated tie_rows =
     [\<lparr> t_BRAND = Some ''B1'', t_SKUPOS_DESCRIPTION = Some ''P1'', t_CATEGORY = Some ''SNACK'',
        t_total_revenue = 10, t_total_units = 5, t_total_transactions = 1,
        t_avg_price = Finite 2 \<rparr>,
      \<lparr> t_BRAND = Some ''B2'', t_SKUPOS_DESCRIPTION = Some ''P2'', t_CATEGORY = Some ''SNACK'',
        t_total_revenue = 10, t_total_units = 2, t_total_transactions = 1,
        t_avg_price = Finite 5 \<rparr>]"
  by (simp add: top5_aggregated_def tie_rows_def group_by_def pl_filter_def
      pl_is_not_null_def pl_sum_def fdiv_def)

lemma tie_top5_overall_forward: "top5_overall tie_rows (top5_aggregated tie_rows)"
  by (rule top5_overallI [where ranked = "top5_aggregated tie_rows"])
     (simp_all add: tie_top5_aggregated)

lemma tie_top5_overall_backward: "top5_overall tie_rows (rev (top5_aggregated tie_rows))"
  by (rule top5_overallI [where ranked = "rev (top5_aggregated tie_rows)"])
     (simp_all add: tie_top5_aggregated)

text \<open>
  C8, as the code has it. Two runs of the top-5 aggregation on the same input always
  agree on the ranked revenues (hence on the number of rows); they yield the same
  rows in the same order whenever no two groups have the same summed revenue. The
  order among groups of equal revenue is not fixed by the code.
\<close>

theorem top5_runs_agree_up_to_ties:
  "top5_overall cf out1 \<Longrightarrow> top5_overall cf out2 \<Longrightarrow>
     map t_total_revenue out1 = map t_total_revenue out2 \<and>
     (distinct (map t_total_revenue (top5_aggregated cf)) \<longrightarrow> out1 = out2)"
proof -
  assume "top5_overall cf out1" "top5_overall cf out2"
  then obtain r1 r2 where
    r1: "sorted_descending_of t_total_revenue (top5_aggregated cf) r1" "out1 = take 5 r1" and
    r2: "sorted_descending_of t_total_revenue (top5_aggregated cf) r2" "out2 = take 5 r2"
    by (auto simp: top5_overall_def)
  have "map t_total_revenue r1 = map t_total_revenue r2"
    using r1(1) r2(1) by (simp add: sorted_descending_keys)
  then have a: "map t_total_revenue out1 = map t_total_revenue out2"
    by (simp add: r1(2) r2(2) take_map [symmetric])
  have b: "distinct (map t_total_revenue (top5_aggregated cf)) \<longrightarrow> out1 = out2"
    using sorted_descending_unique [OF r1(1) r2(1)] by (simp add: r1(2) r2(2))
  from a b show ?thesis by (rule conjI)
qed

theorem top5_runs_agree_up_to_ties_witness:
  "top5_overall tie_rows (top5_aggregated tie_rows) \<and>
   top5_overall tie_rows (rev (top5_aggregated tie_rows)) \<and>
   map t_total_revenue (top5_aggregated tie_rows) = [10, 10] \<and>
   map t_total_revenue (rev (top5_aggregated tie_rows)) = [10, 10] \<and>
   top5_overall ranked_rows (rev (top5_aggregated ranked_rows)) \<and>
   distinct (map t_total_revenue (top5_aggregated ranked_rows))"
proof -
  note t = top5_runs_agree_up_to_ties [OF tie_top5_overall_forward tie_top5_overall_backward]
  have a: "map t_total_revenue (top5_aggregated tie_rows) = [10, 10]"
    by (simp add: tie_top5_aggregated)
  with t [THEN conjunct1]
  have b: "map t_total_revenue (rev (top5_aggregated tie_rows)) = [10, 10]"
    by (simp only:)
  have c: "distinct (map t_total_revenue (top5_aggregated ranked_rows))"
    by (simp add: ranked_top5_aggregated)
  from tie_top5_overall_forward tie_top5_overall_backward a b ranked_top5_overall c
  show ?thesis by (intro conjI)
qed

text \<open>
  C8 as the specification words it fails on a revenue tie: both orders of the
  two tied products are results of the same aggregation on the same input.
\<close>

theorem top5_tie_has_two_rankings:
  "top5_overall tie_rows
     [\<lparr> t_BRAND = Some ''B1'', t_SKUPOS_DESCRIPTION = Some ''P1'', t_CATEGORY = Some ''SNACK'',
        t_total_revenue = 10, t_total_units = 5, t_total_transactions = 1,
        t_avg_price = Finite 2 \<rparr>,
      \<lparr> t_BRAND = Some ''B2'', t_SKUPOS_DESCRIPTION = Some ''P2'', t_CATEGORY = Some ''SNACK'',
        t_total_revenue = 10, t_total_units = 2, t_total_transactions = 1,
        t_avg_price = Finite 5 \<rparr>] \<and>
   top5_overall tie_rows
     [\<lparr> t_BRAND = Some ''B2'', t_SKUPOS_DESCRIPTION = Some ''P2'', t_CATEGORY = Some ''SNACK'',
        t_total_revenue = 10, t_total_units = 2, t_total_transactions = 1,
        t_avg_price = Finite 5 \<rparr>,
      \<lparr> t_BRAND = Some ''B1'', t_SKUPOS_DESCRIPTION = Some ''P1'', t_CATEGORY = Some ''SNACK'',
        t_total_revenue = 10, t_total_units = 5, t_total_transactions = 1,
        t_avg_price = Finite 2 \<rparr>] \<and>
   \<lparr> t_BRAND = Some ''B1'', t_SKUPOS_DESCRIPTION = Some ''P1'', t_CATEGORY = Some ''SNACK'',
     t_total_revenue = 10, t_total_units = 5, t_total_transactions = 1,
     t_avg_price = Finite 2 \<rparr> \<noteq>
   \<lparr> t_BRAND = Some ''B2'', t_SKUPOS_DESCRIPTION = Some ''P2'', t_CATEGORY = Some ''SNACK'',
     t_total_revenue = 10, t_total_units = 2, t_total_transactions = 1,
     t_avg_price = Finite 5 \<rparr>"
proof (intro conjI)
  show "top5_overall tie_rows
     [\<lparr> t_BRAND = Some ''B1'', t_SKUPOS_DESCRIPTION = Some ''P1'', t_CATEGORY = Some ''SNACK'',
        t_total_revenue = 10, t_total_units = 5, t_total_transactions = 1,
        t_avg_price = Finite 2 \<rparr>,
      \<lparr> t_BRAND = Some ''B2'', t_SKUPOS_DESCRIPTION = Some ''P2'', t_CATEGORY = Some ''SNACK'',
        t_total_revenue = 10, t_total_units = 2, t_total_transactions = 1,
        t_avg_price = Finite 5 \<rparr>]"
    using tie_top5_overall_forward by (simp only: tie_top5_aggregated)
  show "top5_overall tie_rows
     [\<lparr> t_BRAND = Some ''B2'', t_SKUPOS_DESCRIPTION = Some ''P2'', t_CATEGORY = Some ''SNACK'',
        t_total_revenue = 10, t_total_units = 2, t_total_transactions = 1,
        t_avg_price = Finite 5 \<rparr>,
      \<lparr> t_BRAND = Some ''B1'', t_SKUPOS_DESCRIPTION = Some ''P1'', t_CATEGORY = Some ''SNACK'',
        t_total_revenue = 10, t_total_units = 5, t_total_transactions = 1,
        t_avg_price = Finite 2 \<rparr>]"
    using tie_top5_overall_backward by (simp add: tie_top5_aggregated)
  show "\<lparr> t_BRAND = Some ''B1'', t_SKUPOS_DESCRIPTION = Some ''P1'', t_CATEGORY = Some ''SNACK'',
     t_total_revenue = 10, t_total_units = 5, t_total_transactions = 1,
     t_avg_price = Finite 2 \<rparr> \<noteq>
   \<lparr> t_BRAND = Some ''B2'', t_SKUPOS_DESCRIPTION = Some ''P2'', t_CATEGORY = Some ''SNACK'',
     t_total_revenue = 10, t_total_units = 2, t_total_transactions = 1,
     t_avg_price = Finite 5 \<rparr>"
    by simp
qed

section \<open>Properties of the canonical store identifier\<close>

subsection \<open>Writing an integer and reading it back\<close>

lemma digit_lt10: "d < 10 \<Longrightarrow> is_digit (digit_char d) \<and> digit_val (digit_char d) = d"
  by (simp add: is_digit_def digit_char_def digit_val_def)

lemma string_of_nat_digits: "list_all is_digit (string_of_nat n) \<and> string_of_nat n \<noteq> []"
proof (induction n rule: string_of_nat.induct)
  case (1 n)
  show ?case
  proof (cases "n < 10")
    case True
    then show ?thesis
      by (subst (1 2) string_of_nat.simps) (simp add: digit_lt10)
  next
    case False
    with 1 have "list_all is_digit (string_of_nat (n div 10))" by simp
    moreover have "is_digit (digit_char (n mod 10))" by (simp add: digit_lt10)
    ultimately show ?thesis
      using False by (subst (1 2) string_of_nat.simps) simp
  qed
qed

lemma foldl_string_of_nat: "foldl (\<lambda>acc c. 10 * acc + digit_val c) 0 (string_of_nat n) = n"
proof (induction n rule: string_of_nat.induct)
  case (1 n)
  show ?case
  proof (cases "n < 10")
    case True
    then show ?thesis
      by (subst string_of_nat.simps) (simp add: digit_lt10)
  next
    case False
    with 1 have "foldl (\<lambda>acc c. 10 * acc + digit_val c) 0 (string_of_nat (n div 10)) = n div 10"
      by simp
    moreover have "digit_val (digit_char (n mod 10)) = n mod 10" by (simp add: digit_lt10)
    ultimately show ?thesis
      using False by (subst string_of_nat.simps) simp
  qed
qed

lemma parse_nat_string_of_nat: "parse_nat (string_of_nat n) = Some n"
  by (simp add: parse_nat_def string_of_nat_digits foldl_string_of_nat)

lemma hd_string_of_nat: "hd (string_of_nat n) \<noteq> CHR ''-'' \<and> hd (string_of_nat n) \<noteq> CHR ''+''"
  using string_of_nat_digits [of n] by (cases "string_of_nat n") (auto simp: is_digit_def)

lemma parse_int_string_of_int: "parse_int (string_of_int i) = Some i"
proof (cases "i < 0")
  case True
  then show ?thesis by (simp add: parse_int_def string_of_int_def parse_nat_string_of_nat)
next
  case False
  obtain c cs where s: "string_of_nat (nat i) = c # cs"
    using string_of_nat_digits [of "nat i"] by (cases "string_of_nat (nat i)") auto
  with hd_string_of_nat [of "nat i"] have "c \<noteq> CHR ''-''" "c \<noteq> CHR ''+''" by auto
  with False s show ?thesis
    using parse_nat_string_of_nat [of "nat i"] by (simp add: parse_int_def string_of_int_def)
qed

lemma truncate_of_int: "truncate_rat (of_int n) = n"
  by (simp add: truncate_rat_def)


lemma string_of_int_42: "string_of_int 42 = ''42''"
  by code_simp

subsection \<open>Keys of the store table and of the performance table\<close>

lemma canonical_of_identifier:
  "in_int64 n \<Longrightarrow> is_identifier n v \<Longrightarrow> canonical_store_id v = Inr (Some (string_of_int n))"
  by (auto simp: is_identifier_def canonical_store_id_def cast_int64_def cast_utf8_def truncate_of_int
      parse_int_string_of_int)

lemma cast_column_Inr:
  "cast_column vs = Inr ks \<Longrightarrow>
   length ks = length vs \<and> (\<forall>i < length vs. canonical_store_id (vs ! i) = Inr (ks ! i))"
proof (induction vs arbitrary: ks)
  case Nil
  then show ?case by simp
next
  case (Cons v vs)
  from Cons.prems obtain k ks' where k: "canonical_store_id v = Inr k"
    and ks': "cast_column vs = Inr ks'" and ks: "ks = k # ks'"
    by (auto split: sum.splits)
  from Cons.IH [OF ks'] have IH: "length ks' = length vs"
    "\<forall>i < length vs. canonical_store_id (vs ! i) = Inr (ks' ! i)" by simp_all
  show ?case
  proof (intro conjI allI impI)
    show "length ks = length (v # vs)" by (simp add: ks IH(1))
    fix i assume "i < length (v # vs)"
    then show "canonical_store_id ((v # vs) ! i) = Inr (ks ! i)"
      using k IH(2) by (cases i) (simp_all add: ks)
  qed
qed

lemma stores_df_key:
  assumes "stores_df stores = Inr sdf" "i < length stores"
  shows "canonical_store_id (st_STORE_ID (stores ! i)) = Inr (sd_STORE_ID (sdf ! i))"
proof -
  from assms(1) obtain ks where ks: "cast_column (map st_STORE_ID stores) = Inr ks"
    and sdf: "sdf = map (\<lambda>(k, r). \<lparr> sd_STORE_ID = k, sd_LATITUDE = st_LATITUDE r,
                                sd_LONGITUDE = st_LONGITUDE r, sd_STATE = st_STATE r,
                                sd_CITY = st_CITY r \<rparr>) (zip ks stores)"
    by (auto simp: stores_df_def split: sum.splits)
  from cast_column_Inr [OF ks] assms(2)
  have l: "length ks = length stores" and c: "canonical_store_id (st_STORE_ID (stores ! i)) = Inr (ks ! i)"
    by simp_all
  from l assms(2) have "sd_STORE_ID (sdf ! i) = ks ! i"
    by (simp add: sdf)
  with c show ?thesis by simp
qed

lemma group_by_keys: "fst ` set (group_by key rows) = key ` set rows"
  by (auto simp: group_by_def image_iff)

lemma store_perf_key:
  assumes "store_perf fd = Inr perf" "r \<in> set fd" "canonical_store_id (d_STORE_ID r) = Inr k"
  shows "\<exists>p \<in> set perf. sp_STORE_ID p = k"
proof -
  from assms(1) obtain ks where ks: "cast_column (map d_STORE_ID fd) = Inr ks"
    and perf: "perf = map (\<lambda>(k, rows).
                      \<lparr> sp_STORE_ID = k,
                        sp_revenue = pl_sum (map (d_TOTAL_REVENUE_AMOUNT \<circ> snd) rows),
                        sp_transactions = pl_sum (map (d_TRANSACTION_COUNT \<circ> snd) rows) \<rparr>)
                   (group_by fst (zip ks fd))"
    by (auto simp: store_perf_def split: sum.splits)
  from assms(2) obtain j where j: "j < length fd" "fd ! j = r"
    by (auto simp: in_set_conv_nth)
  from cast_column_Inr [OF ks] j assms(3)
  have l: "length ks = length fd" and kj: "ks ! j = k"
    by auto
  from l j have "(ks ! j, fd ! j) \<in> set (zip ks fd)"
    by (auto simp: in_set_zip)
  then have "k \<in> fst ` set (zip ks fd)"
    using kj by force
  then have "k \<in> fst ` set (group_by fst (zip ks fd))"
    by (simp add: group_by_keys)
  then obtain rows where "(k, rows) \<in> set (group_by fst (zip ks fd))"
    by auto
  then have "\<lparr> sp_STORE_ID = k,
       sp_revenue = pl_sum (map (d_TOTAL_REVENUE_AMOUNT \<circ> snd) rows),
       sp_transactions = pl_sum (map (d_TRANSACTION_COUNT \<circ> snd) rows) \<rparr> \<in> set perf"
    unfolding perf by force
  then show ?thesis by force
qed

lemma store_joins_its_performance:
  assumes n: "in_int64 n"
    and s: "stores_df stores = Inr sdf" "i < length stores" "is_identifier n (st_STORE_ID (stores ! i))"
    and p: "store_perf fd = Inr perf" "r \<in> set fd" "is_identifier n (d_STORE_ID r)"
  shows "perf_matches (sdf ! i) perf \<noteq> []"
proof -
  have "canonical_store_id (st_STORE_ID (stores ! i)) = Inr (Some (string_of_int n))"
    using n s(3) by (rule canonical_of_identifier)
  with stores_df_key [OF s(1) s(2)] have a: "sd_STORE_ID (sdf ! i) = Some (string_of_int n)"
    by simp
  have "canonical_store_id (d_STORE_ID r) = Inr (Some (string_of_int n))"
    using n p(3) by (rule canonical_of_identifier)
  from store_perf_key [OF p(1) p(2) this]
  obtain q where q: "q \<in> set perf" "sp_STORE_ID q = Some (string_of_int n)"
    by auto
  then have "q \<in> set (perf_matches (sdf ! i) perf)"
    by (simp add: perf_matches_def keys_match_def a)
  then show ?thesis by auto
qed


lemma example_stores_df:
  "stores_df example_stores =
     Inr [\<lparr> sd_STORE_ID = Some ''42'', sd_LATITUDE = Some 1, sd_LONGITUDE = Some 5,
            sd_STATE = Some ''ID'', sd_CITY = Some ''BOISE'' \<rparr>]"
  by (simp add: stores_df_def example_stores_def canonical_store_id_def cast_int64_def
      cast_utf8_def in_int64_def string_of_int_42)

lemma example_store_perf:
  "store_perf example_store_daily =
     Inr [\<lparr> sp_STORE_ID = Some ''42'', sp_revenue = 10, sp_transactions = 3 \<rparr>]"
  by (simp add: store_perf_def example_store_daily_def canonical_store_id_def cast_int64_def
      cast_utf8_def in_int64_def truncate_rat_def string_of_int_42 group_by_def pl_sum_def)

text \<open>
  C7, as the code has it. An identifier that is the 64-bit integer \<open>n\<close>, whether it is
  stored as an integer, as the float of the same value (42.0 for 42) or as the string
  that spells \<open>n\<close> in decimal (\<open>"42"\<close>), is cast to one and the same key, the decimal
  string of \<open>n\<close>. Hence a store whose identifier is \<open>n\<close> in any of these forms is joined
  with the performance row of the daily rows whose identifier is \<open>n\<close> in any of them.
  A string that spells a decimal fraction is not covered.
\<close>

theorem canonical_store_id_same_key:
  assumes "in_int64 n"
  shows "canonical_store_id (Some (IntV n)) = Inr (Some (string_of_int n)) \<and>
     canonical_store_id (Some (FloatV (of_int n))) = Inr (Some (string_of_int n)) \<and>
     canonical_store_id (Some (StrV (string_of_int n))) = Inr (Some (string_of_int n)) \<and>
     (\<forall>stores sdf i fd perf r.
        stores_df stores = Inr sdf \<and> i < length stores \<and>
        is_identifier n (st_STORE_ID (stores ! i)) \<and>
        store_perf fd = Inr perf \<and> r \<in> set fd \<and> is_identifier n (d_STORE_ID r)
        \<longrightarrow> perf_matches (sdf ! i) perf \<noteq> [])"
proof (intro conjI allI impI)
  show "canonical_store_id (Some (IntV n)) = Inr (Some (string_of_int n))"
    using assms by (simp add: canonical_of_identifier is_identifier_def)
  show "canonical_store_id (Some (FloatV (of_int n))) = Inr (Some (string_of_int n))"
    using assms by (simp add: canonical_of_identifier is_identifier_def)
  show "canonical_store_id (Some (StrV (string_of_int n))) = Inr (Some (string_of_int n))"
    using assms by (simp add: canonical_of_identifier is_identifier_def)
next
  fix stores sdf i fd perf r
  assume "stores_df stores = Inr sdf \<and> i < length stores \<and>
        is_identifier n (st_STORE_ID (stores ! i)) \<and>
        store_perf fd = Inr perf \<and> r \<in> set fd \<and> is_identifier n (d_STORE_ID r)"
  then have "stores_df stores = Inr sdf" "i < length stores"
    "is_identifier n (st_STORE_ID (stores ! i))"
    "store_perf fd = Inr perf" "r \<in> set fd" "is_identifier n (d_STORE_ID r)"
    by simp_all
  with assms show "perf_matches (sdf ! i) perf \<noteq> []"
    by (rule store_joins_its_performance)
qed

theorem canonical_store_id_same_key_witness:
  "canonical_store_id (Some (IntV 42)) = Inr (Some ''42'') \<and>
   canonical_store_id (Some (FloatV 42)) = Inr (Some ''42'') \<and>
   canonical_store_id (Some (StrV ''42'')) = Inr (Some ''42'') \<and>
   perf_matches \<lparr> sd_STORE_ID = Some ''42'', sd_LATITUDE = Some 1, sd_LONGITUDE = Some 5,
                  sd_STATE = Some ''ID'', sd_CITY = Some ''BOISE'' \<rparr>
     [\<lparr> sp_STORE_ID = Some ''42'', sp_revenue = 10, sp_transactions = 3 \<rparr>] \<noteq> []"
proof -
  have r: "in_int64 42"
    by (simp add: in_int64_def)
  note t = canonical_store_id_same_key [OF r]
  from t have keys:
    "canonical_store_id (Some (IntV 42)) = Inr (Some ''42'') \<and>
     canonical_store_id (Some (FloatV 42)) = Inr (Some ''42'') \<and>
     canonical_store_id (Some (StrV ''42'')) = Inr (Some ''42'')"
    by (simp add: string_of_int_42)
  have a: "0 < length example_stores" "is_identifier 42 (st_STORE_ID (example_stores ! 0))"
    by (simp_all add: example_stores_def is_identifier_def)
  have b: "example_store_daily ! 0 \<in> set example_store_daily"
    "is_identifier 42 (d_STORE_ID (example_store_daily ! 0))"
    by (simp_all add: example_store_daily_def is_identifier_def)
  from t example_stores_df a example_store_perf b
  have "perf_matches
      ([\<lparr> sd_STORE_ID = Some ''42'', sd_LATITUDE = Some 1, sd_LONGITUDE = Some 5,
          sd_STATE = Some ''ID'', sd_CITY = Some ''BOISE'' \<rparr>] ! 0)
      [\<lparr> sp_STORE_ID = Some ''42'', sp_revenue = 10, sp_transactions = 3 \<rparr>] \<noteq> []"
    by blast
  with keys show ?thesis
    by simp
qed

text \<open>
  C7 as the specification words it fails on its own example: the integer 42 is
  cast to the key \<open>"42"\<close>, while the string \<open>"42.0"\<close> is no integer literal and the
  strict cast to \<open>Int64\<close> raises instead of yielding a key.
\<close>

theorem string_42_0_has_no_key:
  "canonical_store_id (Some (IntV 42)) = Inr (Some ''42'') \<and>
   canonical_store_id (Some (StrV ''42.0'')) = Inl InvalidOperationError"
  by (simp add: canonical_store_id_def cast_int64_def cast_utf8_def in_int64_def
      string_of_int_42 parse_int_def parse_nat_def is_digit_def)

section \<open>Properties of the enrichment stages\<close>


subsection \<open>The geocode stage\<close>

lemma geocode_loop_map: "geocode_loop api rows acc = acc @ map (tract_row_of api) rows"
  by (induction rows arbitrary: acc) (simp_all add: tract_row_of_def Let_def)

lemma geocode_stage_map: "geocode_stage api sdf = map (tract_row_of api) sdf"
  by (simp add: geocode_stage_def geocode_loop_map)






subsection \<open>The tract ACS stage\<close>




lemma succeeds_truthy:
  "fetch_tract_acs api s c t = Some v \<Longrightarrow> length ACS_VARS \<le> length (elements v) \<Longrightarrow> truthy (Some v)"
  by (cases v) (auto simp: elements_def ACS_VARS_def)


lemma succeeds_not_fails: "fetch_succeeds api k \<Longrightarrow> \<not> fetch_fails_or_empty api k"
  by (cases k) (auto simp: fetch_succeeds_def fetch_fails_or_empty_def succeeds_truthy split: option.splits)








section \<open>The cache clear and the memoised calls\<close>

subsection \<open>What the clear removes and what it leaves\<close>

lemma remove_all_files: "fst (remove_files files_to_delete fs []) = no_files"
  by (cases fs) (simp add: files_to_delete_def path_exists_def os_remove_def no_files_def)

lemma clear_files: "files (clear_census_cache p) = no_files"
  using remove_all_files [of "files p"]
  by (cases "remove_files files_to_delete (files p) []") (simp add: clear_census_cache_def)

lemma delete_all_keys: "delete_keys session_keys ss = empty_session"
  by (cases ss) (simp add: session_keys_def has_key_def del_key_def empty_session_def)

lemma clear_session: "session (clear_census_cache p) = empty_session"
  by (simp add: clear_census_cache_def delete_all_keys split: prod.splits)

lemma clear_pipeline_state: "pipeline_state (session (clear_census_cache p)) = NOT_GEOCODED"
  by (simp add: clear_session pipeline_state_def empty_session_def)

lemma clear_keeps_memos:
  "geocode_memo (clear_census_cache p) = geocode_memo p"
  "tract_memo (clear_census_cache p) = tract_memo p"
  "county_memo (clear_census_cache p) = county_memo p"
  by (simp_all add: clear_census_cache_def split: prod.splits)

text \<open>
  With an entry younger than the time to live for the coordinates of every store, the
  geocode loop runs no body: its rows are the same whatever the service would answer,
  no request is made and the memo stays as it is.
\<close>

lemma fresh_memo_no_request:
  assumes "\<forall>row \<in> set rows.
      memo_lookup now memo (sd_LATITUDE row, sd_LONGITUDE row) \<noteq> None"
  shows "snd (cached_geocode_loop now api rows tract_data memo n) = (memo, n)"
  using assms
proof (induction rows arbitrary: tract_data)
  case Nil
  then show ?case by (simp add: cached_geocode_loop.simps)
next
  case (Cons row rows)
  then obtain g where g: "memo_lookup now memo (sd_LATITUDE row, sd_LONGITUDE row) = Some g"
    by auto
  from Cons.prems have rest: "\<forall>row \<in> set rows.
      memo_lookup now memo (sd_LATITUDE row, sd_LONGITUDE row) \<noteq> None"
    by simp
  show ?case
    by (simp add: cached_geocode_loop.simps cached_def g Cons.IH [OF rest])
qed

lemma fresh_memo_ignores_service:
  assumes "\<forall>row \<in> set rows.
      memo_lookup now memo (sd_LATITUDE row, sd_LONGITUDE row) \<noteq> None"
  shows "cached_geocode_loop now api rows tract_data memo n =
           cached_geocode_loop now api' rows tract_data memo n"
  using assms
proof (induction rows arbitrary: tract_data)
  case Nil
  then show ?case by (simp add: cached_geocode_loop.simps)
next
  case (Cons row rows)
  then obtain g where g: "memo_lookup now memo (sd_LATITUDE row, sd_LONGITUDE row) = Some g"
    by auto
  from Cons.prems have rest: "\<forall>row \<in> set rows.
      memo_lookup now memo (sd_LATITUDE row, sd_LONGITUDE row) \<noteq> None"
    by simp
  show ?case
    by (simp add: cached_geocode_loop.simps cached_def g Cons.IH [OF rest])
qed

lemma geocode_after_clear_makes_no_request:
  assumes "\<forall>row \<in> set (env_stores_df env).
      memo_lookup (env_now env) (geocode_memo p) (sd_LATITUDE row, sd_LONGITUDE row) \<noteq> None"
  shows "requests (page_run env (Some Geocode_Stores) (clear_census_cache p)) = 0"
proof -
  let ?c = "clear_census_cache p"
  obtain rows memo' n where l:
    "cached_geocode_loop (env_now env) (env_geocoder env) (env_stores_df env) []
       (geocode_memo p) 0 = (rows, memo', n)"
    by (cases "cached_geocode_loop (env_now env) (env_geocoder env) (env_stores_df env) []
       (geocode_memo p) 0") auto
  with fresh_memo_no_request [OF assms, of "env_geocoder env" "[]" 0]
  have n: "n = 0" by simp
  show ?thesis
    by (simp add: page_run_def load_geocoded_def run_geocode_def tract_section_def
        load_tract_acs_def run_tract_acs_def county_section_def cache_section_def
        unless_raised_def clear_session clear_files clear_keeps_memos l n
        empty_session_def no_files_def)
qed

text \<open>
  With a memo that agrees with the service, and so with the empty memo of a process
  that has just started, the memoised loop yields the rows of \<open>geocode_stage\<close>.
\<close>

lemma memo_agrees_store:
  "memo_agrees now api memo \<Longrightarrow>
   memo_agrees now api (((lat, lon), now, geocode_store api lat lon) # memo)"
  by (auto simp: memo_agrees_def memo_lookup_def ttl_def split: if_splits)

lemma agreeing_memo_is_transparent:
  "memo_agrees now api memo \<Longrightarrow>
   fst (cached_geocode_loop now api rows tract_data memo n) =
     tract_data @ map (tract_row_of api) rows"
proof (induction rows arbitrary: tract_data memo n)
  case Nil
  then show ?case by (simp add: cached_geocode_loop.simps)
next
  case (Cons row rows)
  show ?case
  proof (cases "memo_lookup now memo (sd_LATITUDE row, sd_LONGITUDE row)")
    case None
    from Cons.prems have "memo_agrees now api
        (((sd_LATITUDE row, sd_LONGITUDE row), now,
          geocode_store api (sd_LATITUDE row) (sd_LONGITUDE row)) # memo)"
      by (rule memo_agrees_store)
    from Cons.IH [OF this] None show ?thesis
      by (simp add: cached_geocode_loop.simps cached_def tract_row_of_def Let_def)
  next
    case (Some g)
    with Cons.prems have g: "g = geocode_store api (sd_LATITUDE row) (sd_LONGITUDE row)"
      by (simp add: memo_agrees_def)
    from Cons.IH [OF Cons.prems] Some show ?thesis
      by (simp add: cached_geocode_loop.simps cached_def tract_row_of_def Let_def g)
  qed
qed

lemma first_execution_is_geocode_stage:
  "fst (cached_geocode_loop now api sdf [] [] 0) = geocode_stage api sdf"
  using agreeing_memo_is_transparent [of now api "[]" sdf "[]" 0]
  by (simp add: memo_agrees_def memo_lookup_def geocode_stage_map)

subsection \<open>The session of the two passes, run by run\<close>




























subsection \<open>The second pass replays the first\<close>


end
